theory Spec2Isabelle
  imports Complex_Main "HOL-Library.List_Lexorder" "HOL-Library.Char_ord"
begin

section \<open>Text primitives of the Python runtime\<close>

text \<open>
  Python strings are modelled as \<open>string\<close>, one \<open>char\<close> per code point, so
  the model covers text whose code points lie below 256. Integers read from the
  environment (\<open>int(os.getenv(...))\<close>) are unbounded and become \<open>int\<close>.
\<close>

text \<open>\<open>str.isspace\<close> on the code points below 256: TAB..CR, FS..US, space, NEL, NBSP.\<close>

definition isspace :: "char \<Rightarrow> bool" where
  "isspace c = (let n = (of_char c :: nat) in
      (9 \<le> n \<and> n \<le> 13) \<or> (28 \<le> n \<and> n \<le> 32) \<or> n = 133 \<or> n = 160)"

text \<open>\<open>str.strip()\<close>: drop leading and trailing whitespace.\<close>

definition strip :: "string \<Rightarrow> string" where
  "strip s = rev (dropWhile isspace (rev (dropWhile isspace s)))"

text \<open>
  \<open>str.lower()\<close>. Only the ASCII capitals are mapped: the other letters below 256 are
  outside the token pattern before and after lower-casing.
\<close>

definition lower_char :: "char \<Rightarrow> char" where
  "lower_char c =
     (case map_of (zip ''ABCDEFGHIJKLMNOPQRSTUVWXYZ'' ''abcdefghijklmnopqrstuvwxyz'') c of
        Some d \<Rightarrow> d
      | None \<Rightarrow> c)"

definition lower :: "string \<Rightarrow> string" where
  "lower s = map lower_char s"

text \<open>\<open>str.count(c)\<close> for a one-character needle.\<close>

definition count_char :: "char \<Rightarrow> string \<Rightarrow> nat" where
  "count_char c s = length (filter (\<lambda>d. d = c) s)"

text \<open>
  Slicing \<open>xs[a:b]\<close>, \<open>xs[a:]\<close> and \<open>xs[:b]\<close>: a negative bound counts from the end,
  and every bound is clipped to \<open>0 .. len(xs)\<close>.
\<close>

definition slice_bound :: "nat \<Rightarrow> int \<Rightarrow> nat" where
  "slice_bound n i = (if i < 0 then nat (max 0 (i + int n)) else min (nat i) n)"

definition py_slice :: "'a list \<Rightarrow> int \<Rightarrow> int \<Rightarrow> 'a list" where
  "py_slice xs a b =
     (let lo = slice_bound (length xs) a; hi = slice_bound (length xs) b
      in take (hi - lo) (drop lo xs))"

definition py_slice_from :: "'a list \<Rightarrow> int \<Rightarrow> 'a list" where
  "py_slice_from xs a = drop (slice_bound (length xs) a) xs"

definition py_slice_to :: "'a list \<Rightarrow> int \<Rightarrow> 'a list" where
  "py_slice_to xs b = take (slice_bound (length xs) b) xs"

section \<open>Tokenizer\<close>

text \<open>The character class \<open>[a-zA-Z0-9_]\<close> of the token pattern.\<close>

definition is_word_char :: "char \<Rightarrow> bool" where
  "is_word_char c = (let n = (of_char c :: nat) in
      (97 \<le> n \<and> n \<le> 122) \<or> (65 \<le> n \<and> n \<le> 90) \<or> (48 \<le> n \<and> n \<le> 57) \<or> n = 95)"

text \<open>
  \<open>re.findall(r"[a-zA-Z0-9_]{3,}", s)\<close>: the greedy matches, left to right, are the
  maximal runs of word characters of length at least 3. \<open>cur\<close> is the run being
  read, reversed.
\<close>

definition flush_run :: "string \<Rightarrow> string list" where
  "flush_run cur = (if 3 \<le> length cur then [rev cur] else [])"

fun findall_words :: "string \<Rightarrow> string \<Rightarrow> string list" where
  "findall_words cur [] = flush_run cur"
| "findall_words cur (c # cs) =
     (if is_word_char c then findall_words (c # cur) cs
      else flush_run cur @ findall_words [] cs)"

text \<open>\<open>tokenize(text)\<close>: the set of the matches in the lower-cased text.\<close>

definition tokenize :: "string \<Rightarrow> string set" where
  "tokenize text = set (findall_words [] (lower text))"

section \<open>Chunker\<close>

text \<open>The body of the loop of \<open>chunk_text\<close>: the trimmed window, appended when non-empty.\<close>

definition chunk_part :: "string \<Rightarrow> int \<Rightarrow> int \<Rightarrow> string" where
  "chunk_part text chunk_size start = strip (py_slice text start (start + chunk_size))"

definition append_part :: "string list \<Rightarrow> string \<Rightarrow> string list" where
  "append_part chunks part = (if part \<noteq> [] then chunks @ [part] else chunks)"

text \<open>
  \<open>for start in range(0, len(text), step)\<close> with its \<open>break\<close>: \<open>start\<close> takes the values
  \<open>0, step, 2 * step, ...\<close> below \<open>len(text)\<close>. Nothing in the definition says that
  the iteration ends: a run that never ends has the value \<open>None\<close>.
\<close>

partial_function (option) chunk_loop ::
    "string \<Rightarrow> int \<Rightarrow> int \<Rightarrow> int \<Rightarrow> string list \<Rightarrow> string list option" where
  "chunk_loop text chunk_size step start chunks =
     (if start < int (length text) then
        (if start + chunk_size \<ge> int (length text)
         then Some (append_part chunks (chunk_part text chunk_size start))
         else chunk_loop text chunk_size step (start + step)
                (append_part chunks (chunk_part text chunk_size start)))
      else Some chunks)"

definition chunk_text :: "string \<Rightarrow> int \<Rightarrow> int \<Rightarrow> string list option" where
  "chunk_text text chunk_size overlap =
     (if text = [] then Some []
      else chunk_loop text chunk_size (max 1 (chunk_size - overlap)) 0 [])"

text \<open>
  The windowing algorithm in the words of the specification: starting at offset 0, take
  \<open>chunk_size\<close> characters, trim, keep the window if non-empty, advance by
  \<open>max(1, chunk_size - overlap)\<close>, stop once the window's end reaches the text length.
\<close>

function spec_windows :: "string \<Rightarrow> int \<Rightarrow> int \<Rightarrow> nat \<Rightarrow> string list" where
  "spec_windows text chunk_size overlap start =
     (let window = strip (take (nat chunk_size) (drop start text));
          kept = (if window \<noteq> [] then [window] else [])
      in if int start + chunk_size \<ge> int (length text) then kept
         else kept @ spec_windows text chunk_size overlap
                       (start + nat (max 1 (chunk_size - overlap))))"
  by pat_completeness auto
termination
  by (relation "measure (\<lambda>(text, chunk_size, overlap, start).
          nat (int (length text) - chunk_size - int start))") auto

declare spec_windows.simps [simp del]

section \<open>JSON values, exceptions, configuration and collaborators\<close>

text \<open>
  The values \<open>json.loads\<close>, \<open>request.get_json()\<close> and \<open>response.json()\<close> return, and
  the payloads handed to \<open>jsonify\<close> and \<open>json.dumps\<close>. A JSON object is a Python
  \<open>dict\<close>: an association list whose keys are distinct.
\<close>

datatype json =
    JNull
  | JBool bool
  | JInt int
  | JFloat real
  | JStr string
  | JArr "json list"
  | JObj "(string \<times> json) list"

text \<open>Python truth value of a parsed JSON value (\<open>if x:\<close>, \<open>bool(x)\<close>, \<open>a or b\<close>).\<close>

fun truthy :: "json \<Rightarrow> bool" where
  "truthy JNull = False"
| "truthy (JBool b) = b"
| "truthy (JInt i) = (i \<noteq> 0)"
| "truthy (JFloat r) = (r \<noteq> 0)"
| "truthy (JStr s) = (s \<noteq> [])"
| "truthy (JArr xs) = (xs \<noteq> [])"
| "truthy (JObj kvs) = (kvs \<noteq> [])"

text \<open>\<open>d.get(key, default)\<close> on a dict.\<close>

definition dict_get :: "(string \<times> json) list \<Rightarrow> string \<Rightarrow> json \<Rightarrow> json" where
  "dict_get d k dflt = (case map_of d k of Some v \<Rightarrow> v | None \<Rightarrow> dflt)"

text \<open>
  The exceptions of the model. \<open>Timeout\<close> is \<open>requests.exceptions.Timeout\<close>, a subclass
  of \<open>requests.RequestException\<close>. \<open>NoReturn\<close> is not an exception: it stands for a
  call that does not return, and no handler catches it.
\<close>

datatype exc =
    AttributeError
  | TypeError
  | Timeout
  | RequestException string
  | IntegrityError
  | OtherException string
  | NoReturn

fun is_request_exception :: "exc \<Rightarrow> bool" where
  "is_request_exception Timeout = True"
| "is_request_exception (RequestException _) = True"
| "is_request_exception _ = False"

text \<open>The module constants read from the environment at import time.\<close>

record config =
  OLLAMA_MODEL :: string
  OLLAMA_NUM_PREDICT :: int
  OLLAMA_TEMPERATURE :: real
  OLLAMA_KEEP_ALIVE :: string
  CHAT_HISTORY_MESSAGES :: int
  RAG_TOP_K :: int
  RAG_CHUNK_SIZE :: int
  RAG_CHUNK_OVERLAP :: int
  RAG_AUTO_INGEST_MIN_CHARS :: int
  WEB_LOOKUP_TOP_K :: int
  GOOGLE_API_KEY :: string
  GOOGLE_CSE_ID :: string

text \<open>
  A \<open>requests.Response\<close>: status, body text, the outcome of \<open>response.json()\<close>, the
  lines \<open>iter_lines\<close> yields and the exception, if any, that ends the iteration.
\<close>

record response =
  status_code :: int
  body_text :: string
  json_body :: "exc + json"
  resp_lines :: "string list"
  stream_end :: "exc option"

text \<open>\<open>response.ok\<close>: the status is not a 4xx or 5xx.\<close>

definition ok :: "response \<Rightarrow> bool" where
  "ok r = (\<not> (400 \<le> status_code r \<and> status_code r < 600))"

text \<open>
  What the code takes from outside. A request handler sends at most one request to the
  search provider and at most one to the model service: \<open>google_outcome\<close> and
  \<open>ollama_outcome\<close> are what \<open>HTTP_SESSION.get\<close> and \<open>HTTP_SESSION.post\<close> do there
  (raise, or return a response). \<open>uuid4 n\<close> is the text of the \<open>n\<close>-th identifier
  \<open>uuid.uuid4()\<close> hands out; \<open>json_loads\<close> is \<open>json.loads\<close> on a line, \<open>None\<close> for
  \<open>JSONDecodeError\<close>; \<open>py_str\<close> is \<open>str()\<close> of a value that is not a string, as an
  f-string applies it; \<open>exc_details\<close> is \<open>str(exc)\<close>.
\<close>

record env =
  uuid4 :: "nat \<Rightarrow> string"
  json_loads :: "string \<Rightarrow> json option"
  py_str :: "json \<Rightarrow> string"
  exc_details :: "exc \<Rightarrow> string"
  google_outcome :: "exc + response"
  ollama_outcome :: "exc + response"

section \<open>Document store\<close>

text \<open>A row of the table \<open>rag_chunks\<close>; the column \<open>tokens\<close> holds a JSON list of strings.\<close>

record chunk_row =
  row_id :: string
  row_filename :: string
  row_index :: nat
  row_content :: string
  row_tokens :: "string list"

text \<open>
  The state the handlers change: the table in insertion order, the number of identifiers
  drawn so far, the number of \<open>SELECT\<close> statements run, and the requests sent to the
  search provider and to the model service.
\<close>

record world =
  rag_chunks :: "chunk_row list"
  uuid_count :: nat
  db_selects :: nat
  web_calls :: "json list"
  llm_calls :: "json list"

definition rag_counts :: "world \<Rightarrow> (nat \<times> nat) \<times> world" where
  "rag_counts w =
     (let chunk_count = length (rag_chunks w);
          document_count = length (remdups (map row_filename (rag_chunks w)))
      in ((document_count, chunk_count), w\<lparr>db_selects := db_selects w + 2\<rparr>))"

definition rag_filenames :: "world \<Rightarrow> string list \<times> world" where
  "rag_filenames w =
     (sort (remdups (map row_filename (rag_chunks w))), w\<lparr>db_selects := db_selects w + 1\<rparr>)"

text \<open>\<open>json.dumps(sorted(tokenize(part)))\<close>, read back by \<open>json.loads\<close>.\<close>

definition sorted_tokens :: "string \<Rightarrow> string list" where
  "sorted_tokens part = sorted_list_of_set (tokenize part)"

text \<open>
  The \<open>INSERT\<close> loop of \<open>add_document_chunks\<close>. The column \<open>id\<close> is the primary key:
  an identifier already in the table makes the statement raise.
\<close>

fun insert_chunks ::
    "env \<Rightarrow> string \<Rightarrow> nat \<Rightarrow> string list \<Rightarrow> world \<Rightarrow> exc option \<times> world" where
  "insert_chunks e filename index [] w = (None, w)"
| "insert_chunks e filename index (part # rest) w =
     (let new_id = uuid4 e (uuid_count w);
          w1 = w\<lparr>uuid_count := Suc (uuid_count w)\<rparr>
      in if new_id \<in> set (map row_id (rag_chunks w1)) then (Some IntegrityError, w1)
         else insert_chunks e filename (Suc index) rest
                (w1\<lparr>rag_chunks := rag_chunks w1 @
                   [\<lparr>row_id = new_id, row_filename = filename, row_index = index,
                     row_content = part, row_tokens = sorted_tokens part\<rparr>]\<rparr>))"

text \<open>
  \<open>add_document_chunks\<close>: the connection's context manager rolls the transaction back
  when the block raises.
\<close>

definition add_document_chunks ::
    "config \<Rightarrow> env \<Rightarrow> string \<Rightarrow> string \<Rightarrow> world \<Rightarrow> (exc + nat) \<times> world" where
  "add_document_chunks cfg e filename content w =
     (case chunk_text content (RAG_CHUNK_SIZE cfg) (RAG_CHUNK_OVERLAP cfg) of
        None \<Rightarrow> (Inl NoReturn, w)
      | Some chunks \<Rightarrow>
          (case insert_chunks e filename 0 chunks w of
             (Some err, w1) \<Rightarrow> (Inl err, w1\<lparr>rag_chunks := rag_chunks w\<rparr>)
           | (None, w1) \<Rightarrow> (Inr (length chunks), w1)))"

section \<open>Retriever\<close>

record match =
  m_filename :: string
  m_index :: nat
  m_content :: string

definition match_of :: "chunk_row \<Rightarrow> match" where
  "match_of r = \<lparr>m_filename = row_filename r, m_index = row_index r, m_content = row_content r\<rparr>"

definition overlap_count :: "string set \<Rightarrow> chunk_row \<Rightarrow> nat" where
  "overlap_count query_tokens r = card (query_tokens \<inter> set (row_tokens r))"

fun rank_rows :: "string set \<Rightarrow> chunk_row list \<Rightarrow> (nat \<times> match) list" where
  "rank_rows query_tokens [] = []"
| "rank_rows query_tokens (r # rows) =
     (if overlap_count query_tokens r > 0
      then (overlap_count query_tokens r, match_of r) # rank_rows query_tokens rows
      else rank_rows query_tokens rows)"

text \<open>
  \<open>ranked.sort(key=lambda item: item[0], reverse=True)\<close>: a stable sort, larger keys
  first, equal keys in their original order.
\<close>

definition sort_ranked :: "(nat \<times> match) list \<Rightarrow> (nat \<times> match) list" where
  "sort_ranked ranked = sort_key (\<lambda>item. - int (fst item)) ranked"

definition retrieve_context :: "string \<Rightarrow> int \<Rightarrow> world \<Rightarrow> match list \<times> world" where
  "retrieve_context query top_k w =
     (let query_tokens = tokenize query
      in if query_tokens = {} then ([], w)
         else (let rows = rag_chunks w;
                   w1 = w\<lparr>db_selects := db_selects w + 1\<rparr>
               in if rows = [] then ([], w1)
                  else (map snd (py_slice_to (sort_ranked (rank_rows query_tokens rows)) top_k),
                        w1)))"

section \<open>Auto-ingest heuristic\<close>

definition resolve_model :: "config \<Rightarrow> json \<Rightarrow> string" where
  "resolve_model cfg selected_model =
     (case selected_model of
        JStr s \<Rightarrow> (if strip s \<noteq> [] then strip s else OLLAMA_MODEL cfg)
      | _ \<Rightarrow> OLLAMA_MODEL cfg)"

definition should_auto_ingest :: "config \<Rightarrow> json \<Rightarrow> bool" where
  "should_auto_ingest cfg message =
     (case message of
        JStr m \<Rightarrow>
          (let text = strip m
           in if text = [] then False
              else (let line_count = count_char (CHR 0x0A) text + 1;
                        question_marks = count_char (CHR ''?'') text;
                        looks_long = (int (length text) \<ge> RAG_AUTO_INGEST_MIN_CHARS cfg
                                      \<or> line_count \<ge> 12);
                        looks_like_question = (question_marks \<ge> 2)
                    in looks_long \<and> \<not> looks_like_question))
      | _ \<Rightarrow> False)"

text \<open>Decimal text of an integer, as \<open>str()\<close> and f-strings print it.\<close>

fun str_nat :: "nat \<Rightarrow> string" where
  "str_nat n = (if n < 10 then [''0123456789'' ! n]
                else str_nat (n div 10) @ [''0123456789'' ! (n mod 10)])"

declare str_nat.simps [simp del]

definition ingest_pasted_document ::
    "config \<Rightarrow> env \<Rightarrow> string \<Rightarrow> world \<Rightarrow> (exc + string \<times> nat) \<times> world" where
  "ingest_pasted_document cfg e message w =
     (case rag_counts w of
        ((document_count, _), w1) \<Rightarrow>
          (let filename = ''chat-paste-'' @ str_nat (document_count + 1) @ ''.txt''
           in case add_document_chunks cfg e filename message w1 of
                (Inl err, w2) \<Rightarrow> (Inl err, w2)
              | (Inr chunks_added, w2) \<Rightarrow> (Inr (filename, chunks_added), w2)))"

section \<open>Web lookup adapter\<close>

record web_result =
  wr_title :: json
  wr_snippet :: json
  wr_link :: json

definition web_lookup_configured :: "config \<Rightarrow> bool" where
  "web_lookup_configured cfg = (GOOGLE_API_KEY cfg \<noteq> [] \<and> GOOGLE_CSE_ID cfg \<noteq> [])"

text \<open>The \<open>params\<close> of the request to the search provider.\<close>

definition google_params :: "config \<Rightarrow> json \<Rightarrow> int \<Rightarrow> json" where
  "google_params cfg query top_k =
     JObj [(''key'', JStr (GOOGLE_API_KEY cfg)), (''cx'', JStr (GOOGLE_CSE_ID cfg)),
           (''q'', query), (''num'', JInt (max 1 (min top_k 10)))]"

text \<open>
  \<open>for item in items\<close>: a list yields its elements, a string its characters, a dict its
  keys; any other value is not iterable.
\<close>

definition iter_items :: "json \<Rightarrow> exc + json list" where
  "iter_items items =
     (case items of
        JArr xs \<Rightarrow> Inr xs
      | JStr s \<Rightarrow> Inr (map (\<lambda>c. JStr [c]) s)
      | JObj d \<Rightarrow> Inr (map (\<lambda>kv. JStr (fst kv)) d)
      | _ \<Rightarrow> Inl TypeError)"

fun collect_results :: "web_result list \<Rightarrow> json list \<Rightarrow> exc + web_result list" where
  "collect_results results [] = Inr results"
| "collect_results results (item # items) =
     (case item of
        JObj d \<Rightarrow>
          (let title = dict_get d ''title'' (JStr []);
               snippet = dict_get d ''snippet'' (JStr []);
               link = dict_get d ''link'' (JStr [])
           in collect_results
                (if truthy title \<or> truthy snippet \<or> truthy link
                 then results @ [\<lparr>wr_title = title, wr_snippet = snippet, wr_link = link\<rparr>]
                 else results)
                items)
      | _ \<Rightarrow> Inl AttributeError)"

text \<open>The body of the \<open>try\<close> block of \<open>fetch_google_results\<close>, after the request is sent.\<close>

definition google_lookup :: "env \<Rightarrow> exc + web_result list \<times> string option" where
  "google_lookup e =
     (case google_outcome e of
        Inl err \<Rightarrow> Inl err
      | Inr response \<Rightarrow>
          (if \<not> ok response then Inr ([], Some ''lookup_failed'')
           else (case json_body response of
                   Inl err \<Rightarrow> Inl err
                 | Inr (JObj d) \<Rightarrow>
                     (case iter_items (dict_get d ''items'' (JArr [])) of
                        Inl err \<Rightarrow> Inl err
                      | Inr items \<Rightarrow>
                          (case collect_results [] items of
                             Inl err \<Rightarrow> Inl err
                           | Inr results \<Rightarrow> Inr (results, None)))
                 | Inr _ \<Rightarrow> Inl AttributeError)))"

definition fetch_google_results ::
    "config \<Rightarrow> env \<Rightarrow> json \<Rightarrow> int \<Rightarrow> world
       \<Rightarrow> (exc + web_result list \<times> string option) \<times> world" where
  "fetch_google_results cfg e query top_k w =
     (if \<not> web_lookup_configured cfg then (Inr ([], Some ''not_configured''), w)
      else (let w1 = w\<lparr>web_calls := web_calls w @ [google_params cfg query top_k]\<rparr>
            in case google_lookup e of
                 Inl err \<Rightarrow>
                   (if is_request_exception err then (Inr ([], Some ''lookup_failed''), w1)
                    else (Inl err, w1))
               | Inr res \<Rightarrow> (Inr res, w1)))"

section \<open>Prompt builder\<close>

definition nl :: string where
  "nl = [CHR 0x0A]"

definition SYSTEM_PROMPT :: string where
  "SYSTEM_PROMPT =
     ''You are a knowledgeable and helpful AI assistant. You can discuss any topic including:'' @ nl @
     ''- Technology, programming, and software development'' @ nl @
     ''- Science, mathematics, and engineering'' @ nl @
     ''- Business, finance, and economics'' @ nl @
     ''- Arts, literature, and culture'' @ nl @
     ''- History, geography, and current events'' @ nl @
     ''- Health, fitness, and wellness'' @ nl @
     ''- And much more'' @ nl @ nl @
     ''Provide clear, accurate, and helpful responses. Use examples when appropriate.'' @ nl @
     ''Be conversational and friendly. If you're not sure about something, say so.'' @ nl @
     ''Default to concise answers unless the user asks for deep detail.'' @ nl @
     ''Keep default answers under 120 words and use short bullet points when possible.''"

text \<open>\<open>sep.join(parts)\<close>.\<close>

fun join :: "string \<Rightarrow> string list \<Rightarrow> string" where
  "join sep [] = []"
| "join sep [x] = x"
| "join sep (x # y # ys) = x @ sep @ join sep (y # ys)"

text \<open>A value inside an f-string: a string as it is, any other value through \<open>str()\<close>.\<close>

definition fmt :: "env \<Rightarrow> json \<Rightarrow> string" where
  "fmt e v = (case v of JStr s \<Rightarrow> s | _ \<Rightarrow> py_str e v)"

definition web_block :: "env \<Rightarrow> nat \<Rightarrow> web_result \<Rightarrow> string" where
  "web_block e index result =
     ''[web-'' @ str_nat index @ ''] '' @ fmt e (wr_title result) @ nl @
     ''Snippet: '' @ fmt e (wr_snippet result) @ nl @
     ''URL: '' @ fmt e (wr_link result)"

definition context_block :: "match \<Rightarrow> string" where
  "context_block m = ''['' @ m_filename m @ ''#'' @ str_nat (m_index m) @ '']'' @ nl @ m_content m"

definition web_prompt :: "env \<Rightarrow> bool \<Rightarrow> web_result list \<Rightarrow> string" where
  "web_prompt e web_enabled web_results =
     (if web_enabled \<and> web_results \<noteq> [] then
        SYSTEM_PROMPT @ nl @ nl @
        ''WEB LOOKUP MODE: Use the following Google search snippets as fresh context. '' @
        ''Prefer these sources for time-sensitive facts and mention URLs when useful.'' @ nl @ nl @
        join (nl @ nl)
          (map (\<lambda>ir. web_block e (fst ir) (snd ir))
               (zip [1 ..< Suc (length web_results)] web_results))
      else SYSTEM_PROMPT)"

text \<open>
  \<open>build_system_prompt\<close>. \<open>retrieve_context(user_message)\<close> lower-cases the message:
  a message that is not a string has no \<open>lower\<close>.
\<close>

definition build_system_prompt ::
    "config \<Rightarrow> env \<Rightarrow> bool \<Rightarrow> json \<Rightarrow> bool \<Rightarrow> web_result list \<Rightarrow> world
       \<Rightarrow> (exc + string) \<times> world" where
  "build_system_prompt cfg e rag_enabled user_message web_enabled web_results w =
     (let prompt = web_prompt e web_enabled web_results
      in if \<not> rag_enabled then (Inr prompt, w)
         else (case user_message of
                 JStr q \<Rightarrow>
                   (case retrieve_context q (RAG_TOP_K cfg) w of
                      (matches, w1) \<Rightarrow>
                        (if matches = [] then
                           (Inr (prompt @ nl @ nl @
                              ''RAG MODE: No matching document context found for this question.''),
                            w1)
                         else
                           (Inr (prompt @ nl @ nl @
                              ''RAG MODE: Use only the following document context when relevant. '' @
                              ''If context is insufficient, clearly say so.'' @ nl @ nl @
                              join (nl @ nl) (map context_block matches)),
                            w1)))
               | _ \<Rightarrow> (Inl AttributeError, w)))"

text \<open>
  \<open>conversation_history[-CHAT_HISTORY_MESSAGES:]\<close> on whatever the request carries as
  \<open>history\<close>: a list or a string can be sliced, nothing else.
\<close>

definition bound_history :: "config \<Rightarrow> json \<Rightarrow> exc + json list" where
  "bound_history cfg conversation_history =
     (case conversation_history of
        JArr xs \<Rightarrow> Inr (py_slice_from xs (- CHAT_HISTORY_MESSAGES cfg))
      | JStr s \<Rightarrow> Inr (map (\<lambda>c. JStr [c]) (py_slice_from s (- CHAT_HISTORY_MESSAGES cfg)))
      | _ \<Rightarrow> Inl TypeError)"

definition chat_message :: "json \<Rightarrow> json \<Rightarrow> json" where
  "chat_message role content = JObj [(''role'', role), (''content'', content)]"

text \<open>The loop over \<open>bounded_history\<close>; \<open>msg.get\<close> needs a dict.\<close>

fun history_messages :: "json list \<Rightarrow> json list \<Rightarrow> exc + json list" where
  "history_messages messages [] = Inr messages"
| "history_messages messages (msg # rest) =
     (case msg of
        JObj d \<Rightarrow>
          (let role = dict_get d ''role'' JNull;
               content = dict_get d ''content'' (JStr [])
           in history_messages
                (if (role = JStr ''user'' \<or> role = JStr ''assistant'') \<and> truthy content
                 then messages @ [chat_message role content]
                 else messages)
                rest)
      | _ \<Rightarrow> Inl AttributeError)"

definition build_messages ::
    "config \<Rightarrow> env \<Rightarrow> json \<Rightarrow> json \<Rightarrow> bool \<Rightarrow> bool \<Rightarrow> web_result list \<Rightarrow> world
       \<Rightarrow> (exc + json list) \<times> world" where
  "build_messages cfg e user_message conversation_history rag_enabled web_enabled web_results w =
     (case bound_history cfg conversation_history of
        Inl err \<Rightarrow> (Inl err, w)
      | Inr bounded_history \<Rightarrow>
          (case build_system_prompt cfg e rag_enabled user_message web_enabled web_results w of
             (Inl err, w1) \<Rightarrow> (Inl err, w1)
           | (Inr system, w1) \<Rightarrow>
               (case history_messages [chat_message (JStr ''system'') (JStr system)]
                       bounded_history of
                  Inl err \<Rightarrow> (Inl err, w1)
                | Inr messages \<Rightarrow>
                    (Inr (messages @ [chat_message (JStr ''user'') user_message]), w1))))"

section \<open>Chat orchestrator\<close>

text \<open>
  What a handler hands back: a JSON body with its status, the records of an
  \<open>application/x-ndjson\<close> stream, or nothing when a call inside it does not return.
\<close>

datatype reply =
    JsonReply int json
  | StreamReply "json list"
  | NoReply

text \<open>\<open>"message" in data\<close> for a string: substring search.\<close>

fun contains_str :: "string \<Rightarrow> string \<Rightarrow> bool" where
  "contains_str p [] = (p = [])"
| "contains_str p (c # cs) = (take (length p) (c # cs) = p \<or> contains_str p cs)"

definition ollama_request :: "config \<Rightarrow> string \<Rightarrow> json list \<Rightarrow> bool \<Rightarrow> json" where
  "ollama_request cfg selected_model messages stream =
     JObj [(''model'', JStr selected_model), (''messages'', JArr messages),
           (''stream'', JBool stream), (''keep_alive'', JStr (OLLAMA_KEEP_ALIVE cfg)),
           (''options'', JObj [(''temperature'', JFloat (OLLAMA_TEMPERATURE cfg)),
                               (''num_predict'', JInt (OLLAMA_NUM_PREDICT cfg))])]"

definition not_configured_reply :: reply where
  "not_configured_reply =
     JsonReply 400 (JObj [(''success'', JBool False),
       (''error'', JStr (''Web Mode is enabled but Google lookup is not configured. '' @
                        ''Set GOOGLE_API_KEY and GOOGLE_CSE_ID.''))])"

definition ack_text :: "string \<Rightarrow> nat \<Rightarrow> string" where
  "ack_text filename chunks_added =
     ''Document saved from chat as '' @ filename @ '' with '' @ str_nat chunks_added @
     '' chunks. '' @ ''Now ask your question and I will use it in RAG mode.''"

text \<open>The web lookup both handlers start with.\<close>

definition web_step ::
    "config \<Rightarrow> env \<Rightarrow> bool \<Rightarrow> json \<Rightarrow> world
       \<Rightarrow> (exc + web_result list \<times> string option) \<times> world" where
  "web_step cfg e web_enabled user_message w =
     (if web_enabled then fetch_google_results cfg e user_message (WEB_LOOKUP_TOP_K cfg) w
      else (Inr ([], None), w))"

text \<open>
  \<open>ingest_pasted_document(user_message)\<close> in a handler. The call follows
  \<open>should_auto_ingest\<close>, which holds for strings only.
\<close>

definition ingest_message ::
    "config \<Rightarrow> env \<Rightarrow> json \<Rightarrow> world \<Rightarrow> (exc + string \<times> nat) \<times> world" where
  "ingest_message cfg e user_message w =
     (case user_message of
        JStr m \<Rightarrow> ingest_pasted_document cfg e m w
      | _ \<Rightarrow> (Inl TypeError, w))"

subsection \<open>Single-shot mode\<close>

text \<open>Lines 454 to 487 of \<open>chat\<close>: the request to the model service and its answer.\<close>

definition chat_dispatch ::
    "config \<Rightarrow> env \<Rightarrow> string \<Rightarrow> bool \<Rightarrow> bool \<Rightarrow> json list \<Rightarrow> world
       \<Rightarrow> (exc + reply) \<times> world" where
  "chat_dispatch cfg e selected_model rag_enabled web_enabled messages w =
     (let w1 = w\<lparr>llm_calls := llm_calls w @ [ollama_request cfg selected_model messages False]\<rparr>
      in case ollama_outcome e of
           Inl err \<Rightarrow> (Inl err, w1)
         | Inr ollama_response \<Rightarrow>
             (if status_code ollama_response \<noteq> 200
              then (Inl (OtherException (''Ollama API error: '' @ body_text ollama_response)), w1)
              else (case json_body ollama_response of
                      Inl err \<Rightarrow> (Inl err, w1)
                    | Inr (JObj body) \<Rightarrow>
                        (case dict_get body ''message'' (JObj []) of
                           JObj message \<Rightarrow>
                             (let assistant_message = dict_get message ''content'' (JStr [])
                              in if \<not> truthy assistant_message
                                 then (Inl (OtherException ''Ollama API returned an empty response''),
                                       w1)
                                 else (case assistant_message of
                                         JStr s \<Rightarrow>
                                           (Inr (JsonReply 200 (JObj
                                              [(''message'', JStr (strip s)),
                                               (''success'', JBool True),
                                               (''model'', JStr selected_model),
                                               (''rag_enabled'', JBool rag_enabled),
                                               (''rag_ingested'', JBool False),
                                               (''web_enabled'', JBool web_enabled)])), w1)
                                       | _ \<Rightarrow> (Inl AttributeError, w1)))
                         | _ \<Rightarrow> (Inl AttributeError, w1))
                    | Inr _ \<Rightarrow> (Inl AttributeError, w1))))"

text \<open>The \<open>try\<close> block of \<open>chat\<close> once \<open>data\<close> is known to be a dict with a message.\<close>

definition chat_steps ::
    "config \<Rightarrow> env \<Rightarrow> (string \<times> json) list \<Rightarrow> json \<Rightarrow> world \<Rightarrow> (exc + reply) \<times> world" where
  "chat_steps cfg e data user_message w =
     (let conversation_history = dict_get data ''history'' (JArr []);
          rag_enabled = truthy (dict_get data ''rag_enabled'' (JBool False));
          web_enabled = truthy (dict_get data ''web_enabled'' (JBool False));
          selected_model = resolve_model cfg (dict_get data ''model'' JNull)
      in case web_step cfg e web_enabled user_message w of
           (Inl err, w1) \<Rightarrow> (Inl err, w1)
         | (Inr (web_results, web_error), w1) \<Rightarrow>
             (if web_enabled \<and> web_error = Some ''not_configured''
              then (Inr not_configured_reply, w1)
              else if rag_enabled \<and> should_auto_ingest cfg user_message then
                (case ingest_message cfg e user_message w1 of
                   (Inl err, w2) \<Rightarrow> (Inl err, w2)
                 | (Inr (filename, chunks_added), w2) \<Rightarrow>
                     (case rag_counts w2 of
                        ((_, total_chunks), w3) \<Rightarrow>
                          (Inr (JsonReply 200 (JObj
                             [(''success'', JBool True),
                              (''message'', JStr (ack_text filename chunks_added)),
                              (''model'', JStr selected_model),
                              (''rag_enabled'', JBool True),
                              (''rag_ingested'', JBool True),
                              (''rag_total_chunks'', JInt (int total_chunks)),
                              (''web_enabled'', JBool web_enabled)])), w3)))
              else
                (case build_messages cfg e user_message conversation_history
                        rag_enabled web_enabled web_results w1 of
                   (Inl err, w2) \<Rightarrow> (Inl err, w2)
                 | (Inr messages, w2) \<Rightarrow>
                     chat_dispatch cfg e selected_model rag_enabled web_enabled messages w2)))"

text \<open>
  The \<open>try\<close> block of \<open>chat\<close>: \<open>data\<close> is what \<open>request.get_json()\<close> returned.
  \<open>"message" not in data\<close> looks for a key in a dict, an element in a list and a
  substring in a string, and raises for the other values; \<open>data["message"]\<close> raises for
  a list and for a string.
\<close>

definition chat_body :: "config \<Rightarrow> env \<Rightarrow> json \<Rightarrow> world \<Rightarrow> (exc + reply) \<times> world" where
  "chat_body cfg e data w =
     (let no_message = JsonReply 400 (JObj [(''error'', JStr ''No message provided'')])
      in if \<not> truthy data then (Inr no_message, w)
         else (case data of
                 JObj d \<Rightarrow>
                   (case map_of d ''message'' of
                      None \<Rightarrow> (Inr no_message, w)
                    | Some user_message \<Rightarrow> chat_steps cfg e d user_message w)
               | JArr xs \<Rightarrow>
                   (if JStr ''message'' \<in> set xs then (Inl TypeError, w) else (Inr no_message, w))
               | JStr s \<Rightarrow>
                   (if contains_str ''message'' s then (Inl TypeError, w) else (Inr no_message, w))
               | _ \<Rightarrow> (Inl TypeError, w)))"

text \<open>The handlers of \<open>chat\<close>: \<open>Timeout\<close> first, then every other exception.\<close>

fun chat_except :: "exc \<Rightarrow> reply" where
  "chat_except NoReturn = NoReply"
| "chat_except Timeout =
     JsonReply 504 (JObj
       [(''error'', JStr ''Request timed out. The model might be loading. Please try again.''),
        (''success'', JBool False)])"
| "chat_except _ =
     JsonReply 500 (JObj
       [(''error'', JStr ''An error occurred processing your request''),
        (''success'', JBool False)])"

definition chat :: "config \<Rightarrow> env \<Rightarrow> json \<Rightarrow> world \<Rightarrow> reply \<times> world" where
  "chat cfg e data w =
     (case chat_body cfg e data w of
        (Inl err, w1) \<Rightarrow> (chat_except err, w1)
      | (Inr r, w1) \<Rightarrow> (r, w1))"

subsection \<open>Streaming mode\<close>

definition token_event :: "json \<Rightarrow> json" where
  "token_event token = JObj [(''type'', JStr ''token''), (''content'', token)]"

definition done_event :: "string \<Rightarrow> bool \<Rightarrow> bool \<Rightarrow> bool \<Rightarrow> json" where
  "done_event selected_model rag_enabled rag_ingested web_enabled =
     JObj [(''type'', JStr ''done''), (''model'', JStr selected_model),
           (''rag_enabled'', JBool rag_enabled), (''rag_ingested'', JBool rag_ingested),
           (''web_enabled'', JBool web_enabled)]"

text \<open>The two handlers of \<open>generate\<close>: \<open>Timeout\<close> first, then every other exception.\<close>

definition error_event :: "env \<Rightarrow> exc \<Rightarrow> json" where
  "error_event e err =
     (if err = Timeout
      then JObj [(''type'', JStr ''error''), (''error'', JStr ''Request timed out'')]
      else JObj [(''type'', JStr ''error''), (''error'', JStr ''Streaming failed''),
                 (''details'', JStr (exc_details e err))])"

definition generate_ingest_ack :: "string \<Rightarrow> nat \<Rightarrow> string \<Rightarrow> bool \<Rightarrow> json list" where
  "generate_ingest_ack filename chunks_added selected_model web_enabled =
     [token_event (JStr (ack_text filename chunks_added)),
      done_event selected_model True True web_enabled]"

text \<open>
  The loop over \<open>response.iter_lines\<close> in \<open>generate\<close>: the records it yields.
  \<open>done\<close> is the completion record of the request; \<open>stream_end\<close> is the exception that
  ends the iteration, if any.
\<close>

fun relay_lines :: "env \<Rightarrow> json \<Rightarrow> string list \<Rightarrow> exc option \<Rightarrow> json list" where
  "relay_lines e done [] ending =
     (case ending of None \<Rightarrow> [] | Some err \<Rightarrow> [error_event e err])"
| "relay_lines e done (line # rest) ending =
     (if line = [] then relay_lines e done rest ending
      else (case json_loads e line of
              None \<Rightarrow> relay_lines e done rest ending
            | Some (JObj parsed) \<Rightarrow>
                (case dict_get parsed ''message'' (JObj []) of
                   JObj message \<Rightarrow>
                     (let token = dict_get message ''content'' (JStr []);
                          tokens = (if truthy token then [token_event token] else [])
                      in if truthy (dict_get parsed ''done'' JNull) then tokens @ [done]
                         else tokens @ relay_lines e done rest ending)
                 | _ \<Rightarrow> [error_event e AttributeError])
            | Some _ \<Rightarrow> [error_event e AttributeError]))"

definition generate ::
    "config \<Rightarrow> env \<Rightarrow> string \<Rightarrow> bool \<Rightarrow> bool \<Rightarrow> json list \<Rightarrow> world \<Rightarrow> json list \<times> world" where
  "generate cfg e selected_model rag_enabled web_enabled messages w =
     (let w1 = w\<lparr>llm_calls := llm_calls w @ [ollama_request cfg selected_model messages True]\<rparr>
      in case ollama_outcome e of
           Inl err \<Rightarrow> ([error_event e err], w1)
         | Inr response \<Rightarrow>
             (if status_code response \<noteq> 200
              then ([JObj [(''type'', JStr ''error''), (''error'', JStr ''Ollama API error''),
                           (''details'', JStr (body_text response))]], w1)
              else (relay_lines e (done_event selected_model rag_enabled False web_enabled)
                      (resp_lines response) (stream_end response), w1)))"

definition stream_steps ::
    "config \<Rightarrow> env \<Rightarrow> (string \<times> json) list \<Rightarrow> json \<Rightarrow> world \<Rightarrow> (exc + reply) \<times> world" where
  "stream_steps cfg e data user_message w =
     (let conversation_history = dict_get data ''history'' (JArr []);
          rag_enabled = truthy (dict_get data ''rag_enabled'' (JBool False));
          web_enabled = truthy (dict_get data ''web_enabled'' (JBool False));
          selected_model = resolve_model cfg (dict_get data ''model'' JNull)
      in case web_step cfg e web_enabled user_message w of
           (Inl err, w1) \<Rightarrow> (Inl err, w1)
         | (Inr (web_results, web_error), w1) \<Rightarrow>
             (if web_enabled \<and> web_error = Some ''not_configured''
              then (Inr not_configured_reply, w1)
              else if rag_enabled \<and> should_auto_ingest cfg user_message then
                (case ingest_message cfg e user_message w1 of
                   (Inl err, w2) \<Rightarrow> (Inl err, w2)
                 | (Inr (filename, chunks_added), w2) \<Rightarrow>
                     (Inr (StreamReply
                        (generate_ingest_ack filename chunks_added selected_model web_enabled)),
                      w2))
              else
                (case build_messages cfg e user_message conversation_history
                        rag_enabled web_enabled web_results w1 of
                   (Inl err, w2) \<Rightarrow> (Inl err, w2)
                 | (Inr messages, w2) \<Rightarrow>
                     (case generate cfg e selected_model rag_enabled web_enabled messages w2 of
                        (events, w3) \<Rightarrow> (Inr (StreamReply events), w3)))))"

definition stream_body :: "config \<Rightarrow> env \<Rightarrow> json \<Rightarrow> world \<Rightarrow> (exc + reply) \<times> world" where
  "stream_body cfg e data w =
     (let no_message = JsonReply 400 (JObj [(''error'', JStr ''No message provided''),
                                            (''success'', JBool False)])
      in if \<not> truthy data then (Inr no_message, w)
         else (case data of
                 JObj d \<Rightarrow>
                   (case map_of d ''message'' of
                      None \<Rightarrow> (Inr no_message, w)
                    | Some user_message \<Rightarrow> stream_steps cfg e d user_message w)
               | JArr xs \<Rightarrow>
                   (if JStr ''message'' \<in> set xs then (Inl TypeError, w) else (Inr no_message, w))
               | JStr s \<Rightarrow>
                   (if contains_str ''message'' s then (Inl TypeError, w) else (Inr no_message, w))
               | _ \<Rightarrow> (Inl TypeError, w)))"

fun stream_except :: "exc \<Rightarrow> reply" where
  "stream_except NoReturn = NoReply"
| "stream_except _ =
     JsonReply 500 (JObj [(''error'', JStr ''Failed to start stream''), (''success'', JBool False)])"

definition chat_stream :: "config \<Rightarrow> env \<Rightarrow> json \<Rightarrow> world \<Rightarrow> reply \<times> world" where
  "chat_stream cfg e data w =
     (case stream_body cfg e data w of
        (Inl err, w1) \<Rightarrow> (stream_except err, w1)
      | (Inr r, w1) \<Rightarrow> (r, w1))"

section \<open>Vocabulary of the properties\<close>





text \<open>
  \<open>uuid.uuid4()\<close> hands out identifiers that are new: from the current draw on, no two
  draws agree and none is in the table.
\<close>

definition fresh_ids :: "env \<Rightarrow> world \<Rightarrow> bool" where
  "fresh_ids e w =
     (inj_on (uuid4 e) {uuid_count w ..}
      \<and> (\<forall>n \<ge> uuid_count w. uuid4 e n \<notin> set (map row_id (rag_chunks w))))"

text \<open>
  A provider item with its three fields read as the adapter reads them, and the test
  that at least one of them is non-empty.
\<close>

definition normalize_item :: "(string \<times> json) list \<Rightarrow> web_result" where
  "normalize_item item =
     \<lparr>wr_title = dict_get item ''title'' (JStr []),
      wr_snippet = dict_get item ''snippet'' (JStr []),
      wr_link = dict_get item ''link'' (JStr [])\<rparr>"

definition has_content :: "web_result \<Rightarrow> bool" where
  "has_content r = (truthy (wr_title r) \<or> truthy (wr_snippet r) \<or> truthy (wr_link r))"

text \<open>
  A history turn is valid when its role is \<open>user\<close> or \<open>assistant\<close> and its content is
  non-empty; \<open>turn_message\<close> is the message built from it.
\<close>

definition valid_turn :: "(string \<times> json) list \<Rightarrow> bool" where
  "valid_turn turn =
     ((dict_get turn ''role'' JNull = JStr ''user''
        \<or> dict_get turn ''role'' JNull = JStr ''assistant'')
      \<and> truthy (dict_get turn ''content'' (JStr [])))"

definition turn_message :: "(string \<times> json) list \<Rightarrow> json" where
  "turn_message turn =
     chat_message (dict_get turn ''role'' JNull) (dict_get turn ''content'' (JStr []))"

text \<open>The name \<open>ingest_pasted_document\<close> gives the document it stores.\<close>

definition paste_filename :: "world \<Rightarrow> string" where
  "paste_filename w =
     ''chat-paste-'' @ str_nat (length (remdups (map row_filename (rag_chunks w))) + 1) @ ''.txt''"

section \<open>Concrete inputs\<close>

text \<open>The configuration when no variable is set in the environment.\<close>

definition default_config :: config where
  "default_config =
     \<lparr>OLLAMA_MODEL = ''llama3.2:1b'', OLLAMA_NUM_PREDICT = 192, OLLAMA_TEMPERATURE = 0.6,
      OLLAMA_KEEP_ALIVE = ''30m'', CHAT_HISTORY_MESSAGES = 6, RAG_TOP_K = 3,
      RAG_CHUNK_SIZE = 700, RAG_CHUNK_OVERLAP = 120, RAG_AUTO_INGEST_MIN_CHARS = 600,
      WEB_LOOKUP_TOP_K = 5, GOOGLE_API_KEY = [], GOOGLE_CSE_ID = []\<rparr>"

definition empty_world :: world where
  "empty_world = \<lparr>rag_chunks = [], uuid_count = 0, db_selects = 0, web_calls = [], llm_calls = []\<rparr>"

definition example_rows :: "chunk_row list" where
  "example_rows =
     [\<lparr>row_id = ''id-0'', row_filename = ''doc.txt'', row_index = 0,
       row_content = ''alpha beta'', row_tokens = [''alpha'', ''beta'']\<rparr>,
      \<lparr>row_id = ''id-1'', row_filename = ''doc.txt'', row_index = 1,
       row_content = ''gamma'', row_tokens = [''gamma'']\<rparr>,
      \<lparr>row_id = ''id-2'', row_filename = ''doc.txt'', row_index = 2,
       row_content = ''alpha beta gamma'', row_tokens = [''alpha'', ''beta'', ''gamma'']\<rparr>]"

definition example_store :: world where
  "example_store = \<lparr>rag_chunks = example_rows, uuid_count = 3, db_selects = 0,
                     web_calls = [], llm_calls = []\<rparr>"

text \<open>Messages for the auto-ingest heuristic.\<close>

definition twenty_lines :: string where
  "twenty_lines = concat (replicate 19 (''line'' @ [CHR 0x0A])) @ ''why?''"

definition three_questions :: string where
  "three_questions = ''who?'' @ [CHR 0x0A] @ ''what?'' @ [CHR 0x0A] @ ''when?''"

definition long_line :: string where
  "long_line = replicate 700 (CHR ''x'')"

definition padded_paste :: string where
  "padded_paste = replicate 11 (CHR 0x0A) @ ''notes''"

text \<open>Collaborators: a table for \<open>json.loads\<close>, identifiers that never repeat.\<close>

definition example_loads :: "string \<Rightarrow> json option" where
  "example_loads = map_of
     [(''frag-1'', JObj [(''message'', JObj [(''content'', JStr ''Hel'')]), (''done'', JBool False)]),
      (''frag-2'', JObj [(''message'', JObj [(''content'', JStr ''lo'')])]),
      (''frag-3'', JObj [(''message'', JObj [(''content'', JStr ''!'')]), (''done'', JBool False)]),
      (''frag-done'', JObj [(''message'', JObj [(''content'', JStr [])]), (''done'', JBool True)]),
      (''frag-list'', JArr [JInt 1])]"

definition unreachable :: "exc + response" where
  "unreachable = Inl (RequestException ''unreachable'')"

definition example_env :: "(exc + response) \<Rightarrow> (exc + response) \<Rightarrow> env" where
  "example_env google ollama =
     \<lparr>uuid4 = (\<lambda>n. replicate (Suc n) (CHR ''u'')), json_loads = example_loads,
      py_str = (\<lambda>v. ''?''), exc_details = (\<lambda>err. ''details''),
      google_outcome = google, ollama_outcome = ollama\<rparr>"


text \<open>A configuration with search credentials, and answers that carry a JSON body.\<close>

definition web_config :: config where
  "web_config = default_config\<lparr>GOOGLE_API_KEY := ''key'', GOOGLE_CSE_ID := ''cx''\<rparr>"

definition json_response :: "int \<Rightarrow> json \<Rightarrow> response" where
  "json_response status body =
     \<lparr>status_code = status, body_text = ''body'', json_body = Inr body,
      resp_lines = [], stream_end = None\<rparr>"

definition example_items :: "(string \<times> json) list list" where
  "example_items =
     [[(''title'', JStr ''Isabelle''), (''snippet'', JStr ''A proof assistant''),
       (''link'', JStr ''https://isabelle.in.tum.de'')],
      [(''title'', JStr []), (''snippet'', JStr []), (''link'', JStr [])],
      [(''kind'', JStr ''customsearch#result'')],
      [(''link'', JStr ''https://example.org'')]]"

text \<open>A chat request without RAG or web mode, and answers of the model service.\<close>

definition hello_request :: "(string \<times> json) list" where
  "hello_request =
     [(''message'', JStr ''hello''),
      (''history'', JArr [JObj [(''role'', JStr ''user''), (''content'', JStr ''hi'')],
                          JObj [(''role'', JStr ''assistant''), (''content'', JStr ''Hello!'')]])]"

definition hello_messages :: "json list" where
  "hello_messages =
     [chat_message (JStr ''system'') (JStr SYSTEM_PROMPT),
      chat_message (JStr ''user'') (JStr ''hi''),
      chat_message (JStr ''assistant'') (JStr ''Hello!''),
      chat_message (JStr ''user'') (JStr ''hello'')]"

definition assistant_body :: "string \<Rightarrow> json" where
  "assistant_body answer =
     JObj [(''model'', JStr ''llama3.2:1b''),
           (''message'', JObj [(''role'', JStr ''assistant''), (''content'', JStr answer)]),
           (''done'', JBool True)]"

text \<open>A configuration with small chunks.\<close>

definition small_config :: config where
  "small_config = default_config\<lparr>RAG_CHUNK_SIZE := 6, RAG_CHUNK_OVERLAP := 1\<rparr>"

text \<open>A configuration whose history bound is 0, and two history turns.\<close>

definition no_history_config :: config where
  "no_history_config = default_config\<lparr>CHAT_HISTORY_MESSAGES := 0\<rparr>"

definition two_turns :: "(string \<times> json) list list" where
  "two_turns =
     [[(''role'', JStr ''user''), (''content'', JStr ''hi'')],
      [(''role'', JStr ''assistant''), (''content'', JStr ''Hello!'')]]"

text \<open>Chat requests with RAG enabled whose message is a pasted document.\<close>

definition paste_request :: "(string \<times> json) list" where
  "paste_request = [(''message'', JStr twenty_lines), (''rag_enabled'', JBool True)]"

definition web_paste_request :: "(string \<times> json) list" where
  "web_paste_request =
     [(''message'', JStr twenty_lines), (''rag_enabled'', JBool True),
      (''web_enabled'', JBool True)]"

section \<open>Properties of the chunker\<close>

lemma chunk_loop_returns:
  assumes "1 \<le> step"
  shows "\<exists>r. chunk_loop text chunk_size step start chunks = Some r"
  using assms
proof (induction "nat (int (length text) - start)" arbitrary: start chunks rule: less_induct)
  case less
  show ?case
  proof (cases "start < int (length text) \<and> \<not> start + chunk_size \<ge> int (length text)")
    case True
    then have "nat (int (length text) - (start + step)) < nat (int (length text) - start)"
      using less.prems by linarith
    from less.hyps [OF this less.prems]
    obtain r where "chunk_loop text chunk_size step (start + step)
        (append_part chunks (chunk_part text chunk_size start)) = Some r"
      by blast
    with True show ?thesis
      by (subst chunk_loop.simps) simp
  next
    case False
    then show ?thesis
      by (subst chunk_loop.simps) auto
  qed
qed

text \<open>
  C10. \<open>chunk_text\<close> returns for every text, every \<open>chunk_size \<ge> 1\<close> and every overlap,
  also an overlap of \<open>chunk_size\<close> or more: the step \<open>max(1, chunk_size - overlap)\<close> is
  at least 1, so the distance to the end of the text shrinks at every iteration.
\<close>

theorem chunk_text_total:
  "1 \<le> chunk_size \<Longrightarrow>
     1 \<le> max 1 (chunk_size - overlap) \<and>
     (\<exists>chunks. chunk_text text chunk_size overlap = Some chunks)"
  using chunk_loop_returns [of "max 1 (chunk_size - overlap)" "text" chunk_size 0 "[]"]
  by (auto simp: chunk_text_def)

theorem chunk_text_total_witness:
  "(1::int) \<le> 3 \<and> (3::int) \<le> 5 \<and> (\<exists>chunks. chunk_text ''abcdefgh'' 3 5 = Some chunks)"
  using chunk_text_total [of 3 5 "''abcdefgh''"] by simp

lemma strip_Nil: "strip [] = []"
  by (simp add: strip_def)

lemma py_slice_window:
  assumes "0 \<le> chunk_size"
  shows "py_slice xs (int start) (int start + chunk_size) = take (nat chunk_size) (drop start xs)"
proof (cases "start \<le> length xs")
  case True
  with assms have "min (nat (int start + chunk_size)) (length xs) - start
      = min (nat chunk_size) (length xs - start)"
    by (simp add: min_def nat_add_distrib) 
  moreover have "take (min (nat chunk_size) (length xs - start)) (drop start xs)
      = take (nat chunk_size) (drop start xs)"
    by (cases "nat chunk_size \<le> length xs - start") simp_all
  ultimately show ?thesis
    using True assms by (simp add: py_slice_def slice_bound_def Let_def min_absorb1)
next
  case False
  with assms show ?thesis
    by (simp add: py_slice_def slice_bound_def Let_def)
qed

lemma chunk_loop_windows:
  assumes "0 \<le> chunk_size"
  shows "chunk_loop doc chunk_size (max 1 (chunk_size - overlap)) (int start) chunks
           = Some (chunks @ spec_windows doc chunk_size overlap start)"
  using assms
proof (induction doc chunk_size overlap start arbitrary: chunks rule: spec_windows.induct)
  case (1 doc chunk_size overlap start)
  let ?part = "chunk_part doc chunk_size (int start)"
  have part: "?part = strip (take (nat chunk_size) (drop start doc))"
    using "1.prems" by (simp add: chunk_part_def py_slice_window)
  show ?case
  proof (cases "int start + chunk_size \<ge> int (length doc)")
    case True
    show ?thesis
    proof (cases "start < length doc")
      case True
      with \<open>int start + chunk_size \<ge> int (length doc)\<close> show ?thesis
        by (subst chunk_loop.simps, subst spec_windows.simps)
           (simp add: part append_part_def Let_def)
    next
      case False
      with \<open>int start + chunk_size \<ge> int (length doc)\<close> show ?thesis
        by (subst chunk_loop.simps, subst spec_windows.simps)
           (simp add: strip_Nil Let_def)
    qed
  next
    case False
    then have lt: "start < length doc" using "1.prems" by linarith
    have step: "int start + max 1 (chunk_size - overlap)
        = int (start + nat (max 1 (chunk_size - overlap)))"
      by simp
    have ih: "chunk_loop doc chunk_size (max 1 (chunk_size - overlap))
          (int (start + nat (max 1 (chunk_size - overlap)))) (append_part chunks ?part)
        = Some (append_part chunks ?part
             @ spec_windows doc chunk_size overlap (start + nat (max 1 (chunk_size - overlap))))"
      using "1.IH" [OF refl refl False "1.prems"] .
    show ?thesis
      using False lt
      by (subst chunk_loop.simps, subst spec_windows.simps)
         (simp only: step ih, simp add: part append_part_def Let_def)
  qed
qed

lemma dropWhile_self: "xs \<noteq> [] \<Longrightarrow> \<not> P (hd xs) \<Longrightarrow> dropWhile P xs = xs"
  by (cases xs) simp_all

lemma strip_idem: "strip (strip s) = strip s"
proof -
  define s' where "s' = dropWhile isspace s"
  define r where "r = dropWhile isspace (rev s')"
  have strip_s: "strip s = rev r"
    by (simp add: strip_def r_def s'_def)
  show ?thesis
  proof (cases "r = []")
    case True
    then show ?thesis by (simp add: strip_s) (simp add: strip_def)
  next
    case False
    have "rev s' = takeWhile isspace (rev s') @ r"
      by (simp add: r_def)
    then have "s' = rev r @ rev (takeWhile isspace (rev s'))"
      by (metis rev_append rev_rev_ident)
    then have hd_eq: "hd (rev r) = hd s'" and ne: "s' \<noteq> []"
      using False by (metis hd_append2 rev_is_Nil_conv, metis Nil_is_append_conv rev_is_Nil_conv)
    have "\<not> isspace (hd s')"
      using ne unfolding s'_def by (rule hd_dropWhile)
    then have front: "dropWhile isspace (rev r) = rev r"
      using False hd_eq by (simp add: dropWhile_self)
    have rear: "dropWhile isspace r = r"
      by (simp add: r_def)
    show ?thesis
      by (simp add: strip_s) (simp add: strip_def front rear)
  qed
qed

lemma spec_windows_trimmed:
  "c \<in> set (spec_windows doc chunk_size overlap start) \<Longrightarrow> c \<noteq> [] \<and> strip c = c"
proof (induction doc chunk_size overlap start rule: spec_windows.induct)
  case (1 doc chunk_size overlap start)
  show ?case
  proof (cases "int start + chunk_size \<ge> int (length doc)")
    case True
    with "1.prems" show ?thesis
      by (subst (asm) spec_windows.simps) (auto simp: Let_def strip_idem split: if_splits)
  next
    case False
    from "1.prems" have "c = strip (take (nat chunk_size) (drop start doc)) \<and> c \<noteq> []
        \<or> c \<in> set (spec_windows doc chunk_size overlap
                     (start + nat (max 1 (chunk_size - overlap))))"
      using False
      by (subst (asm) spec_windows.simps) (auto simp: Let_def split: if_splits)
    then show ?thesis
      using "1.IH" [OF refl refl False] by (auto simp: strip_idem)
  qed
qed

text \<open>
  C2. For \<open>chunk_size > overlap \<ge> 0\<close>, \<open>chunk_text\<close> returns exactly the windows of
  the specification's algorithm; the empty text gives no chunk; and no returned chunk is
  empty, before or after trimming.
\<close>

theorem chunk_text_windowing:
  assumes "0 \<le> overlap" and "overlap < chunk_size"
  shows "chunk_text doc chunk_size overlap = Some (spec_windows doc chunk_size overlap 0)
       \<and> chunk_text [] chunk_size overlap = Some []
       \<and> (\<forall>chunks. chunk_text doc chunk_size overlap = Some chunks \<longrightarrow>
            (\<forall>c \<in> set chunks. c \<noteq> [] \<and> strip c \<noteq> []))"
proof -
  have size: "0 \<le> chunk_size" using assms by simp
  have empty: "spec_windows [] chunk_size overlap 0 = []"
    using size by (subst spec_windows.simps) (simp add: strip_Nil)
  have eq: "chunk_text doc chunk_size overlap = Some (spec_windows doc chunk_size overlap 0)"
    using chunk_loop_windows [OF size, of doc overlap 0 "[]"] empty
    by (simp add: chunk_text_def)
  have "\<forall>c \<in> set (spec_windows doc chunk_size overlap 0). c \<noteq> [] \<and> strip c \<noteq> []"
    using spec_windows_trimmed by fastforce
  with eq show ?thesis
    by (simp add: chunk_text_def)
qed

theorem chunk_text_windowing_witness:
  "(0::int) \<le> 1 \<and> (1::int) < 3
   \<and> chunk_text ''ab cd efg'' 3 1 = Some [''ab'', ''cd'', ''d e'', ''efg'']
   \<and> chunk_text [] 3 1 = Some []"
proof -
  have "spec_windows ''ab cd efg'' 3 1 0 = [''ab'', ''cd'', ''d e'', ''efg'']"
    by code_simp
  then show ?thesis
    using chunk_text_windowing [of 1 3 "''ab cd efg''"] by simp
qed

section \<open>Properties of the retriever\<close>

lemma rank_rows_empty: "rank_rows {} rows = []"
  by (induction rows) (simp_all add: overlap_count_def)

lemma rank_rows_sound:
  "(ov, m) \<in> set (rank_rows qt rows) \<Longrightarrow>
     1 \<le> ov \<and> (\<exists>r \<in> set rows. m = match_of r \<and> ov = overlap_count qt r)"
  by (induction rows) (auto split: if_splits)

lemma sort_ranked_set: "set (sort_ranked ranked) = set ranked"
  by (simp add: sort_ranked_def)

lemma sort_ranked_descending: "sorted_wrt (\<lambda>a b. b \<le> a) (map fst (sort_ranked ranked))"
proof -
  have "sorted (map (\<lambda>item. - int (fst item)) (sort_ranked ranked))"
    by (simp add: sort_ranked_def)
  then show ?thesis
    by (simp add: sorted_wrt_map)
qed

lemma py_slice_to_take: "0 \<le> k \<Longrightarrow> py_slice_to xs k = take (nat k) xs"
  by (simp add: py_slice_to_def slice_bound_def min_def)

lemma retrieve_context_eq:
  assumes "0 \<le> k"
  shows "fst (retrieve_context q k w)
           = map snd (take (nat k) (sort_ranked (rank_rows (tokenize q) (rag_chunks w))))"
  using assms
  by (auto simp: retrieve_context_def Let_def rank_rows_empty sort_ranked_def py_slice_to_take)

text \<open>
  C1. For \<open>k \<ge> 1\<close>, \<open>retrieve_context\<close> returns the first \<open>k\<close> entries of the ranking:
  at most \<open>k\<close> items, each the match of a stored row whose token overlap with the query
  is at least 1, in descending order of overlap. A query without tokens returns the empty
  list and leaves the world as it was (no \<open>SELECT\<close> is run); an empty table returns
  the empty list.
\<close>

theorem retrieve_context_ranked:
  assumes "1 \<le> k"
  shows "fst (retrieve_context q k w)
           = map snd (take (nat k) (sort_ranked (rank_rows (tokenize q) (rag_chunks w))))
       \<and> length (fst (retrieve_context q k w)) \<le> nat k
       \<and> (\<forall>(ov, m) \<in> set (take (nat k) (sort_ranked (rank_rows (tokenize q) (rag_chunks w)))).
            1 \<le> ov \<and> (\<exists>r \<in> set (rag_chunks w).
                         m = match_of r \<and> ov = overlap_count (tokenize q) r))
       \<and> sorted_wrt (\<lambda>a b. b \<le> a)
            (map fst (take (nat k) (sort_ranked (rank_rows (tokenize q) (rag_chunks w)))))
       \<and> (tokenize q = {} \<longrightarrow> retrieve_context q k w = ([], w))
       \<and> (rag_chunks w = [] \<longrightarrow> fst (retrieve_context q k w) = [])"
proof -
  let ?ranked = "sort_ranked (rank_rows (tokenize q) (rag_chunks w))"
  have eq: "fst (retrieve_context q k w) = map snd (take (nat k) ?ranked)"
    using assms by (simp add: retrieve_context_eq)
  have len: "length (fst (retrieve_context q k w)) \<le> nat k"
    by (simp add: eq)
  have sound: "\<forall>(ov, m) \<in> set (take (nat k) ?ranked).
      1 \<le> ov \<and> (\<exists>r \<in> set (rag_chunks w). m = match_of r \<and> ov = overlap_count (tokenize q) r)"
  proof -
    have "set (take (nat k) ?ranked) \<subseteq> set (rank_rows (tokenize q) (rag_chunks w))"
      using set_take_subset [of "nat k" ?ranked] by (simp add: sort_ranked_set)
    then show ?thesis
      using rank_rows_sound by fast
  qed
  have desc: "sorted_wrt (\<lambda>a b. b \<le> a) (map fst (take (nat k) ?ranked))"
    using sort_ranked_descending [of "rank_rows (tokenize q) (rag_chunks w)"]
    by (simp add: take_map [symmetric] sorted_wrt_take)
  have none: "tokenize q = {} \<longrightarrow> retrieve_context q k w = ([], w)"
    by (simp add: retrieve_context_def)
  have empty: "rag_chunks w = [] \<longrightarrow> fst (retrieve_context q k w) = []"
    by (simp add: eq sort_ranked_def)
  from eq len sound desc none empty show ?thesis
    by blast
qed

theorem retrieve_context_ranked_witness:
  "(1::int) \<le> 2
   \<and> fst (retrieve_context ''Alpha GAMMA be beta'' 2 example_store)
       = [\<lparr>m_filename = ''doc.txt'', m_index = 2, m_content = ''alpha beta gamma''\<rparr>,
          \<lparr>m_filename = ''doc.txt'', m_index = 0, m_content = ''alpha beta''\<rparr>]
   \<and> retrieve_context ''?? a'' 2 example_store = ([], example_store)
   \<and> fst (retrieve_context ''alpha'' 2 empty_world) = []"
proof -
  have ranked: "sort_ranked (rank_rows (tokenize ''Alpha GAMMA be beta'') (rag_chunks example_store))
   = [(3, \<lparr>m_filename = ''doc.txt'', m_index = 2, m_content = ''alpha beta gamma''\<rparr>),
      (2, \<lparr>m_filename = ''doc.txt'', m_index = 0, m_content = ''alpha beta''\<rparr>),
      (1, \<lparr>m_filename = ''doc.txt'', m_index = 1, m_content = ''gamma''\<rparr>)]"
    by code_simp
  have no_tokens: "tokenize ''?? a'' = {}"
    by code_simp
  have none: "rag_chunks empty_world = []" "sort_ranked [] = []"
    by (simp_all add: empty_world_def sort_ranked_def)
  show ?thesis
    using retrieve_context_ranked [of 2 "''Alpha GAMMA be beta''" example_store]
      retrieve_context_ranked [of 2 "''?? a''" example_store]
      retrieve_context_ranked [of 2 "''alpha''" empty_world]
    by (simp add: ranked no_tokens none)
qed

section \<open>Properties of the auto-ingest heuristic\<close>

lemma filter_dropWhile_other:
  "(\<And>x. Q x \<Longrightarrow> \<not> P x) \<Longrightarrow> filter Q (dropWhile P xs) = filter Q xs"
  by (induction xs) auto

lemma count_char_strip:
  assumes "\<not> isspace c"
  shows "count_char c (strip s) = count_char c s"
proof -
  have keep: "filter (\<lambda>d. d = c) (dropWhile isspace xs) = filter (\<lambda>d. d = c) xs" for xs
    using assms by (intro filter_dropWhile_other) auto
  have "length (filter (\<lambda>d. d = c) (rev (dropWhile isspace (rev (dropWhile isspace s)))))
      = length (filter (\<lambda>d. d = c) (dropWhile isspace (rev (dropWhile isspace s))))"
    by (simp only: rev_filter [symmetric] length_rev)
  also have "\<dots> = length (filter (\<lambda>d. d = c) (rev (dropWhile isspace s)))"
    by (simp only: keep)
  also have "\<dots> = length (filter (\<lambda>d. d = c) (dropWhile isspace s))"
    by (simp only: rev_filter [symmetric] length_rev)
  also have "\<dots> = length (filter (\<lambda>d. d = c) s)"
    by (simp only: keep)
  finally show ?thesis
    by (simp add: count_char_def strip_def)
qed

lemma question_mark_not_space: "\<not> isspace (CHR ''?'')"
  by (simp add: isspace_def)

lemma strip_unchanged:
  assumes "s \<noteq> []" and "\<not> isspace (hd s)" and "\<not> isspace (last s)"
  shows "strip s = s"
proof -
  have "dropWhile isspace s = s"
    using assms(1,2) by (cases s) simp_all
  moreover have "dropWhile isspace (rev s) = rev s"
    using assms(1,3) by (cases "rev s") (simp_all add: last_rev [symmetric] hd_rev)
  ultimately show ?thesis
    by (simp add: strip_def)
qed

text \<open>
  C5, amended. \<open>should_auto_ingest\<close> measures the message after \<open>strip()\<close>: it holds
  exactly when the trimmed message is non-empty, is long (its length reaches the
  configured threshold, or it has 12 lines or more) and the message has fewer than 2
  question marks. For a message without surrounding whitespace: 20 lines with one
  question mark trigger; 700 characters on one line without a question mark trigger when
  the threshold is at most 700. Three question marks never trigger.
\<close>

theorem should_auto_ingest_trimmed:
  "(should_auto_ingest cfg (JStr m) \<longleftrightarrow>
      strip m \<noteq> []
      \<and> (RAG_AUTO_INGEST_MIN_CHARS cfg \<le> int (length (strip m))
           \<or> 12 \<le> count_char (CHR 0x0A) (strip m) + 1)
      \<and> count_char (CHR ''?'') m < 2)
   \<and> (strip m = m \<and> count_char (CHR 0x0A) m + 1 = 20 \<and> count_char (CHR ''?'') m = 1
        \<longrightarrow> should_auto_ingest cfg (JStr m))
   \<and> (count_char (CHR 0x0A) m + 1 = 3 \<and> count_char (CHR ''?'') m = 3
        \<longrightarrow> \<not> should_auto_ingest cfg (JStr m))
   \<and> (strip m = m \<and> length m = 700 \<and> count_char (CHR 0x0A) m = 0
        \<and> count_char (CHR ''?'') m = 0 \<and> RAG_AUTO_INGEST_MIN_CHARS cfg \<le> 700
        \<longrightarrow> should_auto_ingest cfg (JStr m))"
proof -
  have marks: "count_char (CHR ''?'') (strip m) = count_char (CHR ''?'') m"
    by (rule count_char_strip [OF question_mark_not_space])
  have main: "should_auto_ingest cfg (JStr m) \<longleftrightarrow>
      strip m \<noteq> []
      \<and> (RAG_AUTO_INGEST_MIN_CHARS cfg \<le> int (length (strip m))
           \<or> 12 \<le> count_char (CHR 0x0A) (strip m) + 1)
      \<and> count_char (CHR ''?'') m < 2"
    by (auto simp: should_auto_ingest_def Let_def marks)
  have twenty: "strip m = m \<and> count_char (CHR 0x0A) m + 1 = 20 \<and> count_char (CHR ''?'') m = 1
      \<longrightarrow> should_auto_ingest cfg (JStr m)"
    unfolding main by (auto simp: count_char_def)
  have three: "count_char (CHR 0x0A) m + 1 = 3 \<and> count_char (CHR ''?'') m = 3
      \<longrightarrow> \<not> should_auto_ingest cfg (JStr m)"
    unfolding main by simp
  have long: "strip m = m \<and> length m = 700 \<and> count_char (CHR 0x0A) m = 0
        \<and> count_char (CHR ''?'') m = 0 \<and> RAG_AUTO_INGEST_MIN_CHARS cfg \<le> 700
        \<longrightarrow> should_auto_ingest cfg (JStr m)"
    unfolding main by auto
  from main twenty three long show ?thesis
    by blast
qed

theorem should_auto_ingest_trimmed_witness:
  "should_auto_ingest default_config (JStr twenty_lines)
   \<and> \<not> should_auto_ingest default_config (JStr three_questions)
   \<and> should_auto_ingest default_config (JStr long_line)"
proof -
  have twenty: "strip twenty_lines = twenty_lines \<and> count_char (CHR 0x0A) twenty_lines + 1 = 20
      \<and> count_char (CHR ''?'') twenty_lines = 1"
    by code_simp
  have three: "count_char (CHR 0x0A) three_questions + 1 = 3
      \<and> count_char (CHR ''?'') three_questions = 3"
    by code_simp
  have "strip long_line = long_line"
    unfolding long_line_def by (rule strip_unchanged) (simp_all add: isspace_def)
  then have long: "strip long_line = long_line \<and> length long_line = 700
      \<and> count_char (CHR 0x0A) long_line = 0 \<and> count_char (CHR ''?'') long_line = 0
      \<and> RAG_AUTO_INGEST_MIN_CHARS default_config \<le> 700"
    by (simp add: long_line_def count_char_def default_config_def)
  show ?thesis
    using should_auto_ingest_trimmed [of default_config twenty_lines]
      should_auto_ingest_trimmed [of default_config three_questions]
      should_auto_ingest_trimmed [of default_config long_line]
      twenty three long
    by blast
qed

text \<open>
  C5 as stated, on the untrimmed message, fails: eleven blank lines followed by a word are
  12 lines with no question mark, and the message is not ingested.
\<close>

theorem should_auto_ingest_raw_length_counterexample:
  "\<not> (should_auto_ingest default_config (JStr padded_paste) \<longleftrightarrow>
        (RAG_AUTO_INGEST_MIN_CHARS default_config \<le> int (length padded_paste)
           \<or> 12 \<le> count_char (CHR 0x0A) padded_paste + 1)
        \<and> count_char (CHR ''?'') padded_paste < 2)"
proof -
  have "\<not> should_auto_ingest default_config (JStr padded_paste)"
    by code_simp
  moreover have "12 \<le> count_char (CHR 0x0A) padded_paste + 1
      \<and> count_char (CHR ''?'') padded_paste < 2"
    by code_simp
  ultimately show ?thesis
    by blast
qed

section \<open>Properties of the streaming relay\<close>








section \<open>Properties of the web lookup adapter\<close>

lemma collect_results_objects:
  "collect_results results (map JObj items)
     = Inr (results @ filter has_content (map normalize_item items))"
  by (induction items arbitrary: results)
     (simp_all add: Let_def normalize_item_def has_content_def)

lemma collect_results_content:
  "collect_results results items = Inr found \<Longrightarrow> \<forall>r \<in> set results. has_content r
     \<Longrightarrow> \<forall>r \<in> set found. has_content r"
proof (induction items arbitrary: results)
  case Nil
  then show ?case by simp
next
  case (Cons item items)
  from Cons.prems(1) obtain d where item: "item = JObj d"
    by (cases item) simp_all
  let ?next = "if truthy (dict_get d ''title'' (JStr [])) \<or> truthy (dict_get d ''snippet'' (JStr []))
                  \<or> truthy (dict_get d ''link'' (JStr []))
               then results @ [\<lparr>wr_title = dict_get d ''title'' (JStr []),
                                 wr_snippet = dict_get d ''snippet'' (JStr []),
                                 wr_link = dict_get d ''link'' (JStr [])\<rparr>]
               else results"
  have run: "collect_results ?next items = Inr found"
    using Cons.prems(1) by (simp add: item Let_def)
  have "\<forall>r \<in> set ?next. has_content r"
    using Cons.prems(2) by (simp add: has_content_def)
  with run show ?case
    by (rule Cons.IH)
qed

lemma google_lookup_content:
  "google_lookup e = Inr (results, error) \<Longrightarrow> \<forall>r \<in> set results. has_content r"
  unfolding google_lookup_def
  by (auto split: sum.splits if_splits json.splits dest: collect_results_content)

lemma fetch_google_results_content:
  assumes "fst (fetch_google_results cfg e query top_k w) = Inr (results, error)"
  shows "\<forall>r \<in> set results. has_content r"
proof (cases "google_lookup e")
  case (Inl err)
  with assms show ?thesis
    by (auto simp: fetch_google_results_def Let_def split: if_splits)
next
  case (Inr res)
  with assms show ?thesis
    using google_lookup_content [of e results error]
    by (auto simp: fetch_google_results_def Let_def split: if_splits)
qed

text \<open>
  C7. Without credentials the lookup returns \<open>([], "not_configured")\<close> and the world is
  unchanged: no request is sent. With credentials exactly one request is sent, and its
  \<open>num\<close> is the requested count clamped to 1..10: 1 below 1, 10 above 10, the count
  itself in between. A response that is not ok, and a request exception
  raised by the transport, both give \<open>([], "lookup_failed")\<close> as a value, not as an
  exception. On success the results are the normalised items with the items whose
  title, snippet and link are all empty left out; whatever the lookup returns, every
  result has a non-empty field.
\<close>

theorem fetch_google_results_contract:
  "(\<not> web_lookup_configured cfg \<longrightarrow>
      fetch_google_results cfg e query top_k w = (Inr ([], Some ''not_configured''), w))
   \<and> (web_lookup_configured cfg \<longrightarrow>
        web_calls (snd (fetch_google_results cfg e query top_k w))
          = web_calls w
            @ [JObj [(''key'', JStr (GOOGLE_API_KEY cfg)), (''cx'', JStr (GOOGLE_CSE_ID cfg)),
                     (''q'', query),
                     (''num'', JInt (if top_k < 1 then 1 else if 10 < top_k then 10 else top_k))]])
   \<and> (web_lookup_configured cfg \<and> google_outcome e = Inr response \<and> \<not> ok response \<longrightarrow>
        fst (fetch_google_results cfg e query top_k w) = Inr ([], Some ''lookup_failed''))
   \<and> (web_lookup_configured cfg \<and> google_outcome e = Inl err \<and> is_request_exception err \<longrightarrow>
        fst (fetch_google_results cfg e query top_k w) = Inr ([], Some ''lookup_failed''))
   \<and> (web_lookup_configured cfg \<and> google_outcome e = Inr response \<and> ok response
        \<and> json_body response = Inr (JObj body)
        \<and> dict_get body ''items'' (JArr []) = JArr (map JObj items) \<longrightarrow>
        fst (fetch_google_results cfg e query top_k w)
          = Inr (filter has_content (map normalize_item items), None))
   \<and> (\<forall>results error. fst (fetch_google_results cfg e query top_k w) = Inr (results, error) \<longrightarrow>
        (\<forall>r \<in> set results. has_content r))"
proof -
  have absent: "\<not> web_lookup_configured cfg \<longrightarrow>
      fetch_google_results cfg e query top_k w = (Inr ([], Some ''not_configured''), w)"
    by (simp add: fetch_google_results_def)
  have sent: "web_lookup_configured cfg \<longrightarrow>
        web_calls (snd (fetch_google_results cfg e query top_k w))
          = web_calls w
            @ [JObj [(''key'', JStr (GOOGLE_API_KEY cfg)), (''cx'', JStr (GOOGLE_CSE_ID cfg)),
                     (''q'', query),
                     (''num'', JInt (if top_k < 1 then 1 else if 10 < top_k then 10 else top_k))]]"
    by (auto simp: fetch_google_results_def Let_def google_params_def split: sum.splits)
  have refused: "web_lookup_configured cfg \<and> google_outcome e = Inr response \<and> \<not> ok response
      \<longrightarrow> fst (fetch_google_results cfg e query top_k w) = Inr ([], Some ''lookup_failed'')"
    by (simp add: fetch_google_results_def Let_def google_lookup_def)
  have transport: "web_lookup_configured cfg \<and> google_outcome e = Inl err
      \<and> is_request_exception err
      \<longrightarrow> fst (fetch_google_results cfg e query top_k w) = Inr ([], Some ''lookup_failed'')"
    by (simp add: fetch_google_results_def Let_def google_lookup_def)
  have success: "web_lookup_configured cfg \<and> google_outcome e = Inr response \<and> ok response
        \<and> json_body response = Inr (JObj body)
        \<and> dict_get body ''items'' (JArr []) = JArr (map JObj items) \<longrightarrow>
        fst (fetch_google_results cfg e query top_k w)
          = Inr (filter has_content (map normalize_item items), None)"
    by (simp add: fetch_google_results_def Let_def google_lookup_def iter_items_def
          collect_results_objects)
  have content: "\<forall>results error.
      fst (fetch_google_results cfg e query top_k w) = Inr (results, error) \<longrightarrow>
        (\<forall>r \<in> set results. has_content r)"
    using fetch_google_results_content by blast
  from absent sent refused transport success content show ?thesis
    by blast
qed


theorem fetch_google_results_contract_witness:
  "fetch_google_results default_config (example_env unreachable unreachable)
       (JStr ''isabelle'') 5 empty_world
     = (Inr ([], Some ''not_configured''), empty_world)
   \<and> fst (fetch_google_results web_config (example_env unreachable unreachable)
            (JStr ''isabelle'') 50 empty_world)
     = Inr ([], Some ''lookup_failed'')
   \<and> web_calls (snd (fetch_google_results web_config (example_env unreachable unreachable)
                       (JStr ''isabelle'') 50 empty_world))
     = [JObj [(''key'', JStr ''key''), (''cx'', JStr ''cx''),
              (''q'', JStr ''isabelle''), (''num'', JInt 10)]]
   \<and> web_calls (snd (fetch_google_results web_config (example_env unreachable unreachable)
                       (JStr ''isabelle'') 0 empty_world))
     = [JObj [(''key'', JStr ''key''), (''cx'', JStr ''cx''),
              (''q'', JStr ''isabelle''), (''num'', JInt 1)]]
   \<and> web_calls (snd (fetch_google_results web_config (example_env unreachable unreachable)
                       (JStr ''isabelle'') 7 empty_world))
     = [JObj [(''key'', JStr ''key''), (''cx'', JStr ''cx''),
              (''q'', JStr ''isabelle''), (''num'', JInt 7)]]
   \<and> fst (fetch_google_results web_config
            (example_env (Inr (json_response 503 JNull)) unreachable)
            (JStr ''isabelle'') 5 empty_world)
     = Inr ([], Some ''lookup_failed'')
   \<and> fst (fetch_google_results web_config
            (example_env (Inr (json_response 200
               (JObj [(''items'', JArr (map JObj example_items))]))) unreachable)
            (JStr ''isabelle'') 5 empty_world)
     = Inr ([\<lparr>wr_title = JStr ''Isabelle'', wr_snippet = JStr ''A proof assistant'',
               wr_link = JStr ''https://isabelle.in.tum.de''\<rparr>,
             \<lparr>wr_title = JStr [], wr_snippet = JStr [],
               wr_link = JStr ''https://example.org''\<rparr>], None)"
proof -
  let ?down = "example_env unreachable unreachable"
  let ?refused = "example_env (Inr (json_response 503 JNull)) unreachable"
  let ?body = "[(''items'', JArr (map JObj example_items))]"
  let ?found = "example_env (Inr (json_response 200 (JObj ?body))) unreachable"
  have absent: "\<not> web_lookup_configured default_config"
    by (simp add: web_lookup_configured_def default_config_def)
  have present: "web_lookup_configured web_config"
    by (simp add: web_lookup_configured_def web_config_def default_config_def)
  have keys: "GOOGLE_API_KEY web_config = ''key''" "GOOGLE_CSE_ID web_config = ''cx''"
    "web_calls empty_world = []"
    by (simp_all add: web_config_def default_config_def empty_world_def)
  have down: "google_outcome ?down = Inl (RequestException ''unreachable'')
      \<and> is_request_exception (RequestException ''unreachable'')"
    by (simp add: example_env_def unreachable_def)
  have refused: "google_outcome ?refused = Inr (json_response 503 JNull)
      \<and> \<not> ok (json_response 503 JNull)"
    by (simp add: example_env_def json_response_def ok_def)
  have found: "google_outcome ?found = Inr (json_response 200 (JObj ?body))
      \<and> ok (json_response 200 (JObj ?body))
      \<and> json_body (json_response 200 (JObj ?body)) = Inr (JObj ?body)
      \<and> dict_get ?body ''items'' (JArr []) = JArr (map JObj example_items)"
    by (simp add: example_env_def json_response_def ok_def dict_get_def)
  have kept: "filter has_content (map normalize_item example_items)
      = [\<lparr>wr_title = JStr ''Isabelle'', wr_snippet = JStr ''A proof assistant'',
           wr_link = JStr ''https://isabelle.in.tum.de''\<rparr>,
         \<lparr>wr_title = JStr [], wr_snippet = JStr [], wr_link = JStr ''https://example.org''\<rparr>]"
    by (simp add: example_items_def normalize_item_def has_content_def dict_get_def)
  have first: "fetch_google_results default_config ?down (JStr ''isabelle'') 5 empty_world
      = (Inr ([], Some ''not_configured''), empty_world)"
    using fetch_google_results_contract [of default_config ?down "JStr ''isabelle''" 5 empty_world]
      absent by blast
  have second: "fst (fetch_google_results web_config ?down (JStr ''isabelle'') 50 empty_world)
      = Inr ([], Some ''lookup_failed'')"
    using fetch_google_results_contract [of web_config ?down "JStr ''isabelle''" 50 empty_world
        _ "RequestException ''unreachable''"] present down by blast
  have sent: "web_calls (snd (fetch_google_results web_config ?down (JStr ''isabelle'') top_k
        empty_world))
      = [JObj [(''key'', JStr ''key''), (''cx'', JStr ''cx''), (''q'', JStr ''isabelle''),
               (''num'', JInt (if top_k < 1 then 1 else if 10 < top_k then 10 else top_k))]]"
    for top_k
    using fetch_google_results_contract [of web_config ?down "JStr ''isabelle''" top_k
        empty_world] present
    by (simp only: keys append_Nil)
  have third: "fst (fetch_google_results web_config ?refused (JStr ''isabelle'') 5 empty_world)
      = Inr ([], Some ''lookup_failed'')"
    using fetch_google_results_contract [of web_config ?refused "JStr ''isabelle''" 5 empty_world
        "json_response 503 JNull"] present refused by blast
  have fourth: "fst (fetch_google_results web_config ?found (JStr ''isabelle'') 5 empty_world)
      = Inr (filter has_content (map normalize_item example_items), None)"
    using fetch_google_results_contract [of web_config ?found "JStr ''isabelle''" 5 empty_world
        "json_response 200 (JObj ?body)" _ ?body example_items] present found by blast
  from first second sent [of 50] sent [of 0] sent [of 7] third fourth show ?thesis
    by (simp add: kept)
qed

section \<open>Properties of single-shot dispatch\<close>

lemma chat_reaches_dispatch:
  assumes "map_of d ''message'' = Some user_message"
    and "web_step cfg e (truthy (dict_get d ''web_enabled'' (JBool False))) user_message w
           = (Inr (web_results, web_error), w1)"
    and "\<not> (truthy (dict_get d ''web_enabled'' (JBool False))
            \<and> web_error = Some ''not_configured'')"
    and "\<not> (truthy (dict_get d ''rag_enabled'' (JBool False))
            \<and> should_auto_ingest cfg user_message)"
    and "build_messages cfg e user_message (dict_get d ''history'' (JArr []))
           (truthy (dict_get d ''rag_enabled'' (JBool False)))
           (truthy (dict_get d ''web_enabled'' (JBool False))) web_results w1
           = (Inr messages, w2)"
  shows "chat_body cfg e (JObj d) w =
           chat_dispatch cfg e (resolve_model cfg (dict_get d ''model'' JNull))
             (truthy (dict_get d ''rag_enabled'' (JBool False)))
             (truthy (dict_get d ''web_enabled'' (JBool False))) messages w2"
proof -
  have "d \<noteq> []"
    using assms(1) by auto
  then have "chat_body cfg e (JObj d) w = chat_steps cfg e d user_message w"
    using assms(1) by (simp add: chat_body_def)
  also have "\<dots> = chat_dispatch cfg e (resolve_model cfg (dict_get d ''model'' JNull))
             (truthy (dict_get d ''rag_enabled'' (JBool False)))
             (truthy (dict_get d ''web_enabled'' (JBool False))) messages w2"
    using assms(3,4) by (auto simp: chat_steps_def Let_def assms(2) assms(5))
  finally show ?thesis .
qed


text \<open>
  C8. Single-shot mode, for a request that reaches the model service (it carries a
  message, the web lookup did not end it, it is not ingested, and the messages were
  built): a status other than 200 gives the generic 500 reply with \<open>success\<close> false;
  a 200 answer whose assistant text is empty gives the same reply; a 200 answer with a
  non-empty assistant text gives a 200 reply whose \<open>message\<close> is that text trimmed.
  One request is sent to the model service.
\<close>

theorem chat_single_shot:
  fixes d :: "(string \<times> json) list" and cfg :: config
  defines "rag_enabled \<equiv> truthy (dict_get d ''rag_enabled'' (JBool False))"
    and "web_enabled \<equiv> truthy (dict_get d ''web_enabled'' (JBool False))"
    and "selected_model \<equiv> resolve_model cfg (dict_get d ''model'' JNull)"
  assumes "map_of d ''message'' = Some user_message"
    and "web_step cfg e web_enabled user_message w = (Inr (web_results, web_error), w1)"
    and "\<not> (web_enabled \<and> web_error = Some ''not_configured'')"
    and "\<not> (rag_enabled \<and> should_auto_ingest cfg user_message)"
    and "build_messages cfg e user_message (dict_get d ''history'' (JArr []))
           rag_enabled web_enabled web_results w1 = (Inr messages, w2)"
    and "ollama_outcome e = Inr ollama_response"
  shows "(status_code ollama_response \<noteq> 200 \<longrightarrow>
            fst (chat cfg e (JObj d) w) =
              JsonReply 500 (JObj [(''error'', JStr ''An error occurred processing your request''),
                                   (''success'', JBool False)]))
       \<and> (status_code ollama_response = 200
            \<and> json_body ollama_response = Inr (JObj body)
            \<and> dict_get body ''message'' (JObj []) = JObj message
            \<and> dict_get message ''content'' (JStr []) = JStr [] \<longrightarrow>
            fst (chat cfg e (JObj d) w) =
              JsonReply 500 (JObj [(''error'', JStr ''An error occurred processing your request''),
                                   (''success'', JBool False)]))
       \<and> (status_code ollama_response = 200
            \<and> json_body ollama_response = Inr (JObj body)
            \<and> dict_get body ''message'' (JObj []) = JObj message
            \<and> dict_get message ''content'' (JStr []) = JStr assistant_message
            \<and> assistant_message \<noteq> [] \<longrightarrow>
            fst (chat cfg e (JObj d) w) =
              JsonReply 200 (JObj [(''message'', JStr (strip assistant_message)),
                                   (''success'', JBool True),
                                   (''model'', JStr selected_model),
                                   (''rag_enabled'', JBool rag_enabled),
                                   (''rag_ingested'', JBool False),
                                   (''web_enabled'', JBool web_enabled)]))
       \<and> llm_calls (snd (chat cfg e (JObj d) w))
            = llm_calls w2 @ [ollama_request cfg selected_model messages False]"
proof -
  have body_eq: "chat_body cfg e (JObj d) w =
      chat_dispatch cfg e selected_model rag_enabled web_enabled messages w2"
    unfolding rag_enabled_def web_enabled_def selected_model_def
    using assms(4-8) unfolding rag_enabled_def web_enabled_def
    by (rule chat_reaches_dispatch)
  have refused: "status_code ollama_response \<noteq> 200 \<longrightarrow>
      fst (chat cfg e (JObj d) w) =
        JsonReply 500 (JObj [(''error'', JStr ''An error occurred processing your request''),
                             (''success'', JBool False)])"
    using assms(9) by (simp add: chat_def body_eq chat_dispatch_def Let_def)
  have empty: "status_code ollama_response = 200
      \<and> json_body ollama_response = Inr (JObj body)
      \<and> dict_get body ''message'' (JObj []) = JObj message
      \<and> dict_get message ''content'' (JStr []) = JStr [] \<longrightarrow>
      fst (chat cfg e (JObj d) w) =
        JsonReply 500 (JObj [(''error'', JStr ''An error occurred processing your request''),
                             (''success'', JBool False)])"
    using assms(9) by (simp add: chat_def body_eq chat_dispatch_def Let_def)
  have answered: "status_code ollama_response = 200
      \<and> json_body ollama_response = Inr (JObj body)
      \<and> dict_get body ''message'' (JObj []) = JObj message
      \<and> dict_get message ''content'' (JStr []) = JStr assistant_message
      \<and> assistant_message \<noteq> [] \<longrightarrow>
      fst (chat cfg e (JObj d) w) =
        JsonReply 200 (JObj [(''message'', JStr (strip assistant_message)),
                             (''success'', JBool True),
                             (''model'', JStr selected_model),
                             (''rag_enabled'', JBool rag_enabled),
                             (''rag_ingested'', JBool False),
                             (''web_enabled'', JBool web_enabled)])"
    using assms(9) by (simp add: chat_def body_eq chat_dispatch_def Let_def)
  have sent: "llm_calls (snd (chat cfg e (JObj d) w))
      = llm_calls w2 @ [ollama_request cfg selected_model messages False]"
    using assms(9)
    by (simp add: chat_def body_eq chat_dispatch_def Let_def
          split: sum.splits json.splits prod.splits)
  from refused empty answered sent show ?thesis
    by blast
qed


lemma hello_fields:
  "map_of hello_request ''message'' = Some (JStr ''hello'')"
  "\<not> truthy (dict_get hello_request ''web_enabled'' (JBool False))"
  "\<not> truthy (dict_get hello_request ''rag_enabled'' (JBool False))"
  "resolve_model default_config (dict_get hello_request ''model'' JNull) = ''llama3.2:1b''"
  by (simp_all add: hello_request_def dict_get_def default_config_def resolve_model_def)

lemma hello_steps:
  "web_step default_config (example_env unreachable out)
     (truthy (dict_get hello_request ''web_enabled'' (JBool False))) (JStr ''hello'') empty_world
     = (Inr ([], None), empty_world)"
  "build_messages default_config (example_env unreachable out) (JStr ''hello'')
     (dict_get hello_request ''history'' (JArr []))
     (truthy (dict_get hello_request ''rag_enabled'' (JBool False)))
     (truthy (dict_get hello_request ''web_enabled'' (JBool False))) [] empty_world
     = (Inr hello_messages, empty_world)"
  by (simp_all add: hello_request_def dict_get_def web_step_def build_messages_def
        bound_history_def py_slice_from_def slice_bound_def default_config_def
        build_system_prompt_def web_prompt_def Let_def hello_messages_def)

theorem chat_single_shot_witness:
  "fst (chat default_config (example_env unreachable (Inr (json_response 503 JNull)))
         (JObj hello_request) empty_world)
     = JsonReply 500 (JObj [(''error'', JStr ''An error occurred processing your request''),
                            (''success'', JBool False)])
   \<and> fst (chat default_config
            (example_env unreachable (Inr (json_response 200 (assistant_body []))))
            (JObj hello_request) empty_world)
     = JsonReply 500 (JObj [(''error'', JStr ''An error occurred processing your request''),
                            (''success'', JBool False)])
   \<and> fst (chat default_config
            (example_env unreachable (Inr (json_response 200 (assistant_body ''  Hi there. ''))))
            (JObj hello_request) empty_world)
     = JsonReply 200 (JObj [(''message'', JStr ''Hi there.''),
                            (''success'', JBool True),
                            (''model'', JStr ''llama3.2:1b''),
                            (''rag_enabled'', JBool False),
                            (''rag_ingested'', JBool False),
                            (''web_enabled'', JBool False)])"
proof -
  let ?refused = "json_response 503 JNull"
  let ?silent = "json_response 200 (assistant_body [])"
  let ?answer = "json_response 200 (assistant_body ''  Hi there. '')"
  have outcome: "ollama_outcome (example_env unreachable (Inr r)) = Inr r" for r
    by (simp add: example_env_def)
  have trimmed: "strip ''  Hi there. '' = ''Hi there.''"
    by code_simp
  have body: "status_code (json_response 200 (assistant_body answer)) = 200
      \<and> json_body (json_response 200 (assistant_body answer))
          = Inr (JObj [(''model'', JStr ''llama3.2:1b''),
                       (''message'', JObj [(''role'', JStr ''assistant''),
                                           (''content'', JStr answer)]),
                       (''done'', JBool True)])
      \<and> dict_get [(''model'', JStr ''llama3.2:1b''),
                    (''message'', JObj [(''role'', JStr ''assistant''),
                                        (''content'', JStr answer)]),
                    (''done'', JBool True)] ''message'' (JObj [])
          = JObj [(''role'', JStr ''assistant''), (''content'', JStr answer)]
      \<and> dict_get [(''role'', JStr ''assistant''), (''content'', JStr answer)]
            ''content'' (JStr []) = JStr answer" for answer
    by (simp add: json_response_def assistant_body_def dict_get_def)
  have refused: "status_code ?refused \<noteq> 200"
    by (simp add: json_response_def)
  note field = hello_fields
  note reach = hello_steps [where out = "Inr ?refused"]
  note quiet = hello_steps [where out = "Inr ?silent"]
  note reply = hello_steps [where out = "Inr ?answer"]
  have first: "fst (chat default_config (example_env unreachable (Inr ?refused))
         (JObj hello_request) empty_world)
     = JsonReply 500 (JObj [(''error'', JStr ''An error occurred processing your request''),
                            (''success'', JBool False)])"
    using chat_single_shot [OF field(1) reach(1) _ _ reach(2) outcome [of ?refused]]
      field(2,3) refused by blast
  have second: "fst (chat default_config (example_env unreachable (Inr ?silent))
         (JObj hello_request) empty_world)
     = JsonReply 500 (JObj [(''error'', JStr ''An error occurred processing your request''),
                            (''success'', JBool False)])"
    using chat_single_shot [OF field(1) quiet(1) _ _ quiet(2) outcome [of ?silent]]
      field(2,3) body [of "[]"] by blast
  have third: "fst (chat default_config (example_env unreachable (Inr ?answer))
         (JObj hello_request) empty_world)
     = JsonReply 200 (JObj [(''message'', JStr (strip ''  Hi there. '')),
          (''success'', JBool True),
          (''model'', JStr (resolve_model default_config (dict_get hello_request ''model'' JNull))),
          (''rag_enabled'', JBool (truthy (dict_get hello_request ''rag_enabled'' (JBool False)))),
          (''rag_ingested'', JBool False),
          (''web_enabled'', JBool (truthy (dict_get hello_request ''web_enabled'' (JBool False))))])"
    using chat_single_shot [OF field(1) reply(1) _ _ reply(2) outcome [of ?answer],
        where assistant_message = "''  Hi there. ''"]
      field(2,3) body [of "''  Hi there. ''"] by blast
  from first second third show ?thesis
    by (simp add: trimmed field(2,3,4))
qed

section \<open>Properties of the document store\<close>

lemma fresh_ids_step:
  assumes "fresh_ids e w"
  shows "uuid4 e (uuid_count w) \<notin> set (map row_id (rag_chunks w))"
    and "fresh_ids e (w\<lparr>uuid_count := Suc (uuid_count w),
                         rag_chunks := rag_chunks w @ [r\<lparr>row_id := uuid4 e (uuid_count w)\<rparr>]\<rparr>)"
proof -
  from assms have inj: "inj_on (uuid4 e) {uuid_count w ..}"
    and new: "\<forall>n \<ge> uuid_count w. uuid4 e n \<notin> set (map row_id (rag_chunks w))"
    by (simp_all add: fresh_ids_def)
  from new show "uuid4 e (uuid_count w) \<notin> set (map row_id (rag_chunks w))"
    by simp
  have "inj_on (uuid4 e) {Suc (uuid_count w) ..}"
    by (rule inj_on_subset [OF inj]) auto
  moreover have "uuid4 e n \<noteq> uuid4 e (uuid_count w)" if "Suc (uuid_count w) \<le> n" for n
    using inj_onD [OF inj, of n "uuid_count w"] that by auto
  ultimately show "fresh_ids e (w\<lparr>uuid_count := Suc (uuid_count w),
      rag_chunks := rag_chunks w @ [r\<lparr>row_id := uuid4 e (uuid_count w)\<rparr>]\<rparr>)"
    using new by (auto simp: fresh_ids_def)
qed

lemma insert_chunks_fresh:
  assumes "fresh_ids e w"
  shows "\<exists>rows. insert_chunks e filename index parts w
            = (None, w\<lparr>uuid_count := uuid_count w + length parts,
                        rag_chunks := rag_chunks w @ rows\<rparr>)
         \<and> map row_content rows = parts
         \<and> map row_index rows = [index ..< index + length parts]
         \<and> map row_id rows = map (uuid4 e) [uuid_count w ..< uuid_count w + length parts]
         \<and> (\<forall>r \<in> set rows. row_filename r = filename
                \<and> row_tokens r = sorted_tokens (row_content r))"
  using assms
proof (induction parts arbitrary: index w)
  case Nil
  show ?case
    by (rule exI [of _ "[]"]) simp
next
  case (Cons part rest)
  let ?row = "\<lparr>row_id = uuid4 e (uuid_count w), row_filename = filename, row_index = index,
               row_content = part, row_tokens = sorted_tokens part\<rparr>"
  let ?w = "w\<lparr>uuid_count := Suc (uuid_count w), rag_chunks := rag_chunks w @ [?row]\<rparr>"
  have unused: "uuid4 e (uuid_count w) \<notin> set (map row_id (rag_chunks w))"
    by (rule fresh_ids_step(1) [OF Cons.prems])
  have "fresh_ids e ?w"
    using fresh_ids_step(2) [OF Cons.prems, of ?row] by simp
  from Cons.IH [OF this, of "Suc index"]
  obtain rows where run: "insert_chunks e filename (Suc index) rest ?w
        = (None, ?w\<lparr>uuid_count := uuid_count ?w + length rest,
                     rag_chunks := rag_chunks ?w @ rows\<rparr>)"
    and contents: "map row_content rows = rest"
    and indices: "map row_index rows = [Suc index ..< Suc index + length rest]"
    and ids: "map row_id rows = map (uuid4 e) [uuid_count ?w ..< uuid_count ?w + length rest]"
    and fields: "\<forall>r \<in> set rows. row_filename r = filename
                  \<and> row_tokens r = sorted_tokens (row_content r)"
    by blast
  have step: "insert_chunks e filename index (part # rest) w
      = insert_chunks e filename (Suc index) rest ?w"
    using unused by (simp add: Let_def)
  have "insert_chunks e filename index (part # rest) w
      = (None, w\<lparr>uuid_count := uuid_count w + length (part # rest),
                   rag_chunks := rag_chunks w @ (?row # rows)\<rparr>)"
    by (simp only: step run) simp
  moreover have "map row_content (?row # rows) = part # rest"
    by (simp add: contents)
  moreover have "map row_index (?row # rows) = [index ..< index + length (part # rest)]"
    by (simp add: indices upt_conv_Cons del: upt_Suc)
  moreover have "map row_id (?row # rows)
      = map (uuid4 e) [uuid_count w ..< uuid_count w + length (part # rest)]"
    using ids by (simp add: upt_conv_Cons del: upt_Suc)
  moreover have "\<forall>r \<in> set (?row # rows). row_filename r = filename
      \<and> row_tokens r = sorted_tokens (row_content r)"
    using fields by simp
  ultimately show ?case
    by - (rule exI [of _ "?row # rows"], (intro conjI; assumption))
qed

lemma fresh_ids_distinct:
  assumes "fresh_ids e w"
  shows "distinct (map (uuid4 e) [uuid_count w ..< uuid_count w + n])"
    and "set (map (uuid4 e) [uuid_count w ..< uuid_count w + n])
           \<inter> set (map row_id (rag_chunks w)) = {}"
proof -
  from assms have inj: "inj_on (uuid4 e) {uuid_count w ..}"
    and new: "\<forall>n \<ge> uuid_count w. uuid4 e n \<notin> set (map row_id (rag_chunks w))"
    by (simp_all add: fresh_ids_def)
  have "inj_on (uuid4 e) (set [uuid_count w ..< uuid_count w + n])"
    by (rule inj_on_subset [OF inj]) auto
  then show "distinct (map (uuid4 e) [uuid_count w ..< uuid_count w + n])"
    by (simp add: distinct_map)
  show "set (map (uuid4 e) [uuid_count w ..< uuid_count w + n])
      \<inter> set (map row_id (rag_chunks w)) = {}"
    using new by auto
qed

lemma set_sorted_tokens: "set (sorted_tokens part) = tokenize part"
  by (simp add: sorted_tokens_def tokenize_def)

lemma chunk_text_returns: "\<exists>chunks. chunk_text content chunk_size overlap = Some chunks"
  using chunk_loop_returns [of "max 1 (chunk_size - overlap)" content chunk_size 0 "[]"]
  by (auto simp: chunk_text_def)

lemma add_document_chunks_fresh:
  assumes "fresh_ids e w"
  shows "\<exists>chunks rows.
           chunk_text content (RAG_CHUNK_SIZE cfg) (RAG_CHUNK_OVERLAP cfg) = Some chunks
         \<and> add_document_chunks cfg e filename content w
             = (Inr (length chunks), w\<lparr>uuid_count := uuid_count w + length chunks,
                                         rag_chunks := rag_chunks w @ rows\<rparr>)
         \<and> map row_content rows = chunks
         \<and> map row_index rows = [0 ..< length chunks]
         \<and> map row_id rows = map (uuid4 e) [uuid_count w ..< uuid_count w + length chunks]
         \<and> (\<forall>r \<in> set rows. row_filename r = filename
               \<and> row_tokens r = sorted_tokens (row_content r))"
proof -
  obtain chunks where chunks:
    "chunk_text content (RAG_CHUNK_SIZE cfg) (RAG_CHUNK_OVERLAP cfg) = Some chunks"
    using chunk_text_returns by blast
  from insert_chunks_fresh [OF assms, of filename 0 chunks]
  obtain rows where run: "insert_chunks e filename 0 chunks w
        = (None, w\<lparr>uuid_count := uuid_count w + length chunks,
                    rag_chunks := rag_chunks w @ rows\<rparr>)"
    and contents: "map row_content rows = chunks"
    and indices: "map row_index rows = [0 ..< length chunks]"
    and ids: "map row_id rows = map (uuid4 e) [uuid_count w ..< uuid_count w + length chunks]"
    and fields: "\<forall>r \<in> set rows. row_filename r = filename
                  \<and> row_tokens r = sorted_tokens (row_content r)"
    by auto
  have "add_document_chunks cfg e filename content w
      = (Inr (length chunks), w\<lparr>uuid_count := uuid_count w + length chunks,
                                  rag_chunks := rag_chunks w @ rows\<rparr>)"
    by (simp add: add_document_chunks_def chunks run)
  with chunks contents indices ids fields show ?thesis
    by blast
qed

text \<open>
  C9. When \<open>uuid4\<close> hands out new identifiers, \<open>add_document_chunks\<close> returns the
  number of chunks of the content; the table grows by exactly that many rows, so the
  chunk total of \<open>rag_counts\<close> grows by it; \<open>rag_filenames\<close> lists the filename when
  a chunk was inserted; the new rows carry the chunks in order with indices 0, 1, 2, ...,
  identifiers that are distinct and not in the table before, and as token list the
  sorted tokens of their own content.
\<close>

theorem add_document_chunks_roundtrip:
  assumes "fresh_ids e w"
  shows "\<exists>chunks rows w'.
           chunk_text content (RAG_CHUNK_SIZE cfg) (RAG_CHUNK_OVERLAP cfg) = Some chunks
         \<and> add_document_chunks cfg e filename content w = (Inr (length chunks), w')
         \<and> rag_chunks w' = rag_chunks w @ rows
         \<and> snd (fst (rag_counts w')) = snd (fst (rag_counts w)) + length chunks
         \<and> (chunks \<noteq> [] \<longrightarrow> filename \<in> set (fst (rag_filenames w')))
         \<and> map row_content rows = chunks
         \<and> map row_index rows = [0 ..< length chunks]
         \<and> distinct (map row_id rows)
         \<and> set (map row_id rows) \<inter> set (map row_id (rag_chunks w)) = {}
         \<and> (\<forall>r \<in> set rows. row_filename r = filename
               \<and> row_tokens r = sorted_tokens (row_content r)
               \<and> set (row_tokens r) = tokenize (row_content r))"
proof -
  from add_document_chunks_fresh [OF assms, of content cfg filename]
  obtain chunks rows where chunks:
      "chunk_text content (RAG_CHUNK_SIZE cfg) (RAG_CHUNK_OVERLAP cfg) = Some chunks"
    and result: "add_document_chunks cfg e filename content w
        = (Inr (length chunks), w\<lparr>uuid_count := uuid_count w + length chunks,
                                    rag_chunks := rag_chunks w @ rows\<rparr>)"
    and contents: "map row_content rows = chunks"
    and indices: "map row_index rows = [0 ..< length chunks]"
    and ids: "map row_id rows = map (uuid4 e) [uuid_count w ..< uuid_count w + length chunks]"
    and fields: "\<forall>r \<in> set rows. row_filename r = filename
                  \<and> row_tokens r = sorted_tokens (row_content r)"
    by blast
  let ?w = "w\<lparr>uuid_count := uuid_count w + length chunks, rag_chunks := rag_chunks w @ rows\<rparr>"
  have table: "rag_chunks ?w = rag_chunks w @ rows"
    by simp
  have len: "length rows = length chunks"
    using contents by (metis length_map)
  have total: "snd (fst (rag_counts ?w)) = snd (fst (rag_counts w)) + length chunks"
    by (simp add: rag_counts_def Let_def len)
  have named: "chunks \<noteq> [] \<longrightarrow> filename \<in> set (fst (rag_filenames ?w))"
  proof
    assume "chunks \<noteq> []"
    then have "rows \<noteq> []"
      using len by auto
    then obtain r where "r \<in> set rows"
      by (cases rows) auto
    with fields have "filename \<in> row_filename ` set rows"
      by force
    then show "filename \<in> set (fst (rag_filenames ?w))"
      by (simp add: rag_filenames_def)
  qed
  have unique: "distinct (map row_id rows)"
    and unused: "set (map row_id rows) \<inter> set (map row_id (rag_chunks w)) = {}"
    using fresh_ids_distinct [OF assms, of "length chunks"] by (simp_all only: ids)
  have tokens: "\<forall>r \<in> set rows. row_filename r = filename
      \<and> row_tokens r = sorted_tokens (row_content r)
      \<and> set (row_tokens r) = tokenize (row_content r)"
    using fields by (simp add: set_sorted_tokens)
  from chunks result table total named contents indices unique unused tokens
  show ?thesis
    by blast
qed


theorem add_document_chunks_roundtrip_witness:
  "fresh_ids (example_env unreachable unreachable) empty_world
   \<and> fst (add_document_chunks small_config (example_env unreachable unreachable)
            ''doc.txt'' ''alpha beta gamma'' empty_world) = Inr 3
   \<and> map row_content (rag_chunks (snd (add_document_chunks small_config
          (example_env unreachable unreachable) ''doc.txt'' ''alpha beta gamma'' empty_world)))
       = [''alpha'', ''beta'', ''gamma'']
   \<and> map row_index (rag_chunks (snd (add_document_chunks small_config
          (example_env unreachable unreachable) ''doc.txt'' ''alpha beta gamma'' empty_world)))
       = [0, 1, 2]
   \<and> map row_tokens (rag_chunks (snd (add_document_chunks small_config
          (example_env unreachable unreachable) ''doc.txt'' ''alpha beta gamma'' empty_world)))
       = [[''alpha''], [''beta''], [''gamma'']]"
proof -
  let ?e = "example_env unreachable unreachable"
  have fresh: "fresh_ids ?e empty_world"
    by (simp add: fresh_ids_def example_env_def empty_world_def inj_on_def)
  have "spec_windows ''alpha beta gamma'' 6 1 0 = [''alpha'', ''beta'', ''gamma'']"
    by code_simp
  then have parts: "chunk_text ''alpha beta gamma'' (RAG_CHUNK_SIZE small_config)
      (RAG_CHUNK_OVERLAP small_config) = Some [''alpha'', ''beta'', ''gamma'']"
    using chunk_loop_windows [of 6 "''alpha beta gamma''" 1 0 "[]"]
    by (simp add: chunk_text_def small_config_def default_config_def)
  from add_document_chunks_roundtrip [OF fresh, of "''alpha beta gamma''" small_config "''doc.txt''"]
  obtain chunks rows w' where
    "chunk_text ''alpha beta gamma'' (RAG_CHUNK_SIZE small_config)
       (RAG_CHUNK_OVERLAP small_config) = Some chunks"
    and result: "add_document_chunks small_config ?e ''doc.txt'' ''alpha beta gamma'' empty_world
       = (Inr (length chunks), w')"
    and table: "rag_chunks w' = rag_chunks empty_world @ rows"
    and contents: "map row_content rows = chunks"
    and indices: "map row_index rows = [0 ..< length chunks]"
    and fields: "\<forall>r \<in> set rows. row_filename r = ''doc.txt''
       \<and> row_tokens r = sorted_tokens (row_content r)
       \<and> set (row_tokens r) = tokenize (row_content r)"
    by blast
  with parts have chunks: "chunks = [''alpha'', ''beta'', ''gamma'']"
    by simp
  have tokens: "map sorted_tokens [''alpha'', ''beta'', ''gamma'']
      = [[''alpha''], [''beta''], [''gamma'']]"
    by code_simp
  have "map row_tokens rows = map sorted_tokens (map row_content rows)"
    using fields by simp
  then have stored: "map row_tokens rows = [[''alpha''], [''beta''], [''gamma'']]"
    by (simp only: contents chunks tokens)
  have count: "[0 ..< length chunks] = [0, Suc 0, Suc (Suc 0)]"
    by (simp add: chunks upt_conv_Cons del: upt_Suc)
  have none: "rag_chunks empty_world = []"
    by (simp add: empty_world_def)
  have three: "[0, 1, 2] = [0, Suc 0, Suc (Suc 0)]"
    by simp
  show ?thesis
    using fresh contents indices stored
    by (simp add: result table chunks count none three del: One_nat_def)
qed

section \<open>Properties of the prompt builder\<close>

lemma history_messages_objects:
  "history_messages messages (map JObj turns)
     = Inr (messages @ map turn_message (filter valid_turn turns))"
  by (induction turns arbitrary: messages)
     (simp_all add: Let_def valid_turn_def turn_message_def)

lemma py_slice_from_last:
  "1 \<le> n \<Longrightarrow> py_slice_from xs (- n) = drop (length xs - nat n) xs"
  by (auto simp: py_slice_from_def slice_bound_def intro: arg_cong [where f = "\<lambda>k. drop k xs"])

text \<open>
  For a bound of at least 1 and a history of records, \<open>build_messages\<close> gives the
  system message, the valid turns among the last \<open>CHAT_HISTORY_MESSAGES\<close> turns, and
  the new user message; with 10 valid turns and a bound of 6, the last 6 turns.
\<close>

lemma build_messages_bounded:
  assumes "1 \<le> CHAT_HISTORY_MESSAGES cfg"
    and "build_system_prompt cfg e rag_enabled user_message web_enabled web_results w
           = (Inr system, w1)"
  shows "fst (build_messages cfg e user_message (JArr (map JObj turns))
               rag_enabled web_enabled web_results w)
           = Inr (chat_message (JStr ''system'') (JStr system)
                  # map turn_message (filter valid_turn
                      (drop (length turns - nat (CHAT_HISTORY_MESSAGES cfg)) turns))
                  @ [chat_message (JStr ''user'') user_message])"
proof -
  have "py_slice_from (map JObj turns) (- CHAT_HISTORY_MESSAGES cfg)
      = map JObj (drop (length turns - nat (CHAT_HISTORY_MESSAGES cfg)) turns)"
    using py_slice_from_last [OF assms(1), of "map JObj turns"] by (simp add: drop_map)
  then show ?thesis
    by (simp add: build_messages_def bound_history_def assms(2) history_messages_objects)
qed

lemma build_messages_ten_turns:
  assumes "CHAT_HISTORY_MESSAGES cfg = 6" and "length turns = 10"
    and "\<forall>turn \<in> set turns. valid_turn turn"
    and "build_system_prompt cfg e rag_enabled user_message web_enabled web_results w
           = (Inr system, w1)"
  shows "fst (build_messages cfg e user_message (JArr (map JObj turns))
               rag_enabled web_enabled web_results w)
           = Inr (chat_message (JStr ''system'') (JStr system)
                  # map turn_message (drop 4 turns)
                  @ [chat_message (JStr ''user'') user_message])"
proof -
  have "filter valid_turn (drop 4 turns) = drop 4 turns"
    using assms(3) by (simp add: filter_id_conv) (meson in_set_dropD)
  then show ?thesis
    using build_messages_bounded [OF _ assms(4), of turns] assms(1,2) by simp
qed

text \<open>
  C4. With a bound of 0 the slice \<open>conversation_history[-0:]\<close> is the whole list:
  both turns of a two-turn history are sent, where the last 0 turns are none.
\<close>

theorem build_messages_zero_bound:
  "fst (build_messages no_history_config (example_env unreachable unreachable) (JStr ''hello'')
         (JArr (map JObj two_turns)) False False [] empty_world)
     = Inr [chat_message (JStr ''system'') (JStr SYSTEM_PROMPT),
            chat_message (JStr ''user'') (JStr ''hi''),
            chat_message (JStr ''assistant'') (JStr ''Hello!''),
            chat_message (JStr ''user'') (JStr ''hello'')]"
  by (simp add: build_messages_def bound_history_def py_slice_from_def slice_bound_def
        no_history_config_def default_config_def build_system_prompt_def web_prompt_def
        two_turns_def Let_def dict_get_def)

section \<open>Properties of the auto-ingest step of the orchestrator\<close>

lemma web_step_world:
  assumes "web_step cfg e web_enabled query w = (res, w1)"
  shows "rag_chunks w1 = rag_chunks w" and "uuid_count w1 = uuid_count w"
    and "llm_calls w1 = llm_calls w" and "db_selects w1 = db_selects w"
  using assms
  by (auto simp: web_step_def fetch_google_results_def Let_def split: if_splits sum.splits)

lemma fresh_ids_cong:
  "rag_chunks w1 = rag_chunks w \<Longrightarrow> uuid_count w1 = uuid_count w
     \<Longrightarrow> fresh_ids e w1 = fresh_ids e w"
  by (simp add: fresh_ids_def)

lemma ingest_pasted_document_fresh:
  assumes "fresh_ids e w"
  shows "\<exists>chunks rows.
           chunk_text m (RAG_CHUNK_SIZE cfg) (RAG_CHUNK_OVERLAP cfg) = Some chunks
         \<and> ingest_pasted_document cfg e m w
             = (Inr (paste_filename w, length chunks),
                w\<lparr>db_selects := db_selects w + 2,
                  uuid_count := uuid_count w + length chunks,
                  rag_chunks := rag_chunks w @ rows\<rparr>)
         \<and> map row_content rows = chunks
         \<and> (\<forall>r \<in> set rows. row_filename r = paste_filename w)"
proof -
  let ?w = "w\<lparr>db_selects := db_selects w + 2\<rparr>"
  have "fresh_ids e ?w"
    using assms by (simp add: fresh_ids_def)
  from add_document_chunks_fresh [OF this, of m cfg "paste_filename w"]
  obtain chunks rows where chunks:
      "chunk_text m (RAG_CHUNK_SIZE cfg) (RAG_CHUNK_OVERLAP cfg) = Some chunks"
    and result: "add_document_chunks cfg e (paste_filename w) m ?w
        = (Inr (length chunks), ?w\<lparr>uuid_count := uuid_count ?w + length chunks,
                                     rag_chunks := rag_chunks ?w @ rows\<rparr>)"
    and contents: "map row_content rows = chunks"
    and fields: "\<forall>r \<in> set rows. row_filename r = paste_filename w
                  \<and> row_tokens r = sorted_tokens (row_content r)"
    by blast
  have "ingest_pasted_document cfg e m w
      = (Inr (paste_filename w, length chunks),
         w\<lparr>db_selects := db_selects w + 2,
           uuid_count := uuid_count w + length chunks,
           rag_chunks := rag_chunks w @ rows\<rparr>)"
    using result
    by (simp add: ingest_pasted_document_def rag_counts_def Let_def paste_filename_def)
  with chunks contents fields show ?thesis
    by blast
qed

text \<open>
  C6, amended. A chat request with RAG enabled whose message satisfies the heuristic, and
  which the web lookup step has not ended (web mode is off, or the lookup did not
  answer \<open>not_configured\<close> and did not raise), is ingested: the chunks of the message
  are appended to the table under the paste name, and no request is sent to the model
  service. Single-shot mode answers 200 with the acknowledgment text and
  \<open>rag_ingested\<close> true; streaming mode emits exactly one token event
  \<open>{"type": "token", "content": acknowledgment}\<close> followed by exactly one completion
  event \<open>{"type": "done", "model", "rag_enabled": true, "rag_ingested": true,
  "web_enabled"}\<close>. The identifiers of the rows come from \<open>uuid4\<close>, taken under its
  contract \<open>fresh_ids\<close> as in C9.
\<close>

theorem auto_ingest_acknowledged:
  fixes d :: "(string \<times> json) list" and cfg :: config
  defines "web_enabled \<equiv> truthy (dict_get d ''web_enabled'' (JBool False))"
    and "selected_model \<equiv> resolve_model cfg (dict_get d ''model'' JNull)"
  assumes "map_of d ''message'' = Some (JStr m)"
    and "truthy (dict_get d ''rag_enabled'' (JBool False))"
    and "should_auto_ingest cfg (JStr m)"
    and "web_step cfg e web_enabled (JStr m) w = (Inr (web_results, web_error), w1)"
    and "\<not> (web_enabled \<and> web_error = Some ''not_configured'')"
    and "fresh_ids e w"
  shows "\<exists>chunks rows w2 w3.
           chunk_text m (RAG_CHUNK_SIZE cfg) (RAG_CHUNK_OVERLAP cfg) = Some chunks
         \<and> map row_content rows = chunks
         \<and> (\<forall>r \<in> set rows. row_filename r = paste_filename w)
         \<and> chat cfg e (JObj d) w =
             (JsonReply 200 (JObj
                [(''success'', JBool True),
                 (''message'', JStr (''Document saved from chat as '' @ paste_filename w @ '' with ''
                    @ str_nat (length chunks)
                    @ '' chunks. Now ask your question and I will use it in RAG mode.'')),
                 (''model'', JStr selected_model),
                 (''rag_enabled'', JBool True),
                 (''rag_ingested'', JBool True),
                 (''rag_total_chunks'', JInt (int (length (rag_chunks w) + length chunks))),
                 (''web_enabled'', JBool web_enabled)]), w3)
         \<and> rag_chunks w3 = rag_chunks w @ rows
         \<and> llm_calls w3 = llm_calls w
         \<and> chat_stream cfg e (JObj d) w =
             (StreamReply
                [JObj [(''type'', JStr ''token''),
                       (''content'', JStr (''Document saved from chat as '' @ paste_filename w @ '' with ''
                    @ str_nat (length chunks)
                    @ '' chunks. Now ask your question and I will use it in RAG mode.''))],
                 JObj [(''type'', JStr ''done''), (''model'', JStr selected_model),
                       (''rag_enabled'', JBool True), (''rag_ingested'', JBool True),
                       (''web_enabled'', JBool web_enabled)]], w2)
         \<and> rag_chunks w2 = rag_chunks w @ rows
         \<and> llm_calls w2 = llm_calls w"
proof -
  note same = web_step_world [OF assms(6)]
  have names: "paste_filename w1 = paste_filename w"
    by (simp add: paste_filename_def same(1))
  have "fresh_ids e w1"
    using assms(8) fresh_ids_cong [OF same(1,2)] by simp
  from ingest_pasted_document_fresh [OF this, of m cfg]
  obtain chunks rows where chunks:
      "chunk_text m (RAG_CHUNK_SIZE cfg) (RAG_CHUNK_OVERLAP cfg) = Some chunks"
    and ingest: "ingest_pasted_document cfg e m w1
        = (Inr (paste_filename w, length chunks),
           w1\<lparr>db_selects := db_selects w1 + 2,
              uuid_count := uuid_count w1 + length chunks,
              rag_chunks := rag_chunks w1 @ rows\<rparr>)"
    and contents: "map row_content rows = chunks"
    and fields: "\<forall>r \<in> set rows. row_filename r = paste_filename w"
    unfolding names by blast
  let ?w2 = "w1\<lparr>db_selects := db_selects w1 + 2,
                uuid_count := uuid_count w1 + length chunks,
                rag_chunks := rag_chunks w1 @ rows\<rparr>"
  let ?w3 = "?w2\<lparr>db_selects := db_selects ?w2 + 2\<rparr>"
  have len: "length rows = length chunks"
    using contents by (metis length_map)
  have present: "d \<noteq> []"
    using assms(3) by auto
  have gate: "\<not> (truthy (dict_get d ''web_enabled'' (JBool False))
      \<and> web_error = Some ''not_configured'')"
    using assms(7) by (simp add: web_enabled_def)
  have web: "web_step cfg e (truthy (dict_get d ''web_enabled'' (JBool False))) (JStr m) w
      = (Inr (web_results, web_error), w1)"
    using assms(6) by (simp add: web_enabled_def)
  have single: "chat_steps cfg e d (JStr m) w =
      (Inr (JsonReply 200 (JObj
          [(''success'', JBool True),
           (''message'', JStr (''Document saved from chat as '' @ paste_filename w @ '' with ''
                    @ str_nat (length chunks)
                    @ '' chunks. Now ask your question and I will use it in RAG mode.'')),
           (''model'', JStr selected_model),
           (''rag_enabled'', JBool True),
           (''rag_ingested'', JBool True),
           (''rag_total_chunks'', JInt (int (length (rag_chunks w) + length chunks))),
           (''web_enabled'', JBool web_enabled)])), ?w3)"
    using gate assms(4,5)
    by (auto simp: chat_steps_def Let_def web ingest_message_def ingest rag_counts_def
          same(1) len web_enabled_def selected_model_def ack_text_def)
  have stream: "stream_steps cfg e d (JStr m) w =
      (Inr (StreamReply
          [JObj [(''type'', JStr ''token''),
                       (''content'', JStr (''Document saved from chat as '' @ paste_filename w @ '' with ''
                    @ str_nat (length chunks)
                    @ '' chunks. Now ask your question and I will use it in RAG mode.''))],
           JObj [(''type'', JStr ''done''), (''model'', JStr selected_model),
                       (''rag_enabled'', JBool True), (''rag_ingested'', JBool True),
                       (''web_enabled'', JBool web_enabled)]]), ?w2)"
    using gate assms(4,5)
    by (auto simp: stream_steps_def Let_def web ingest_message_def ingest
          generate_ingest_ack_def web_enabled_def selected_model_def ack_text_def
          token_event_def done_event_def)
  have chat: "chat cfg e (JObj d) w =
      (JsonReply 200 (JObj
          [(''success'', JBool True),
           (''message'', JStr (''Document saved from chat as '' @ paste_filename w @ '' with ''
                    @ str_nat (length chunks)
                    @ '' chunks. Now ask your question and I will use it in RAG mode.'')),
           (''model'', JStr selected_model),
           (''rag_enabled'', JBool True),
           (''rag_ingested'', JBool True),
           (''rag_total_chunks'', JInt (int (length (rag_chunks w) + length chunks))),
           (''web_enabled'', JBool web_enabled)]), ?w3)"
    using present assms(3) by (simp add: chat_def chat_body_def single)
  have chat_stream: "chat_stream cfg e (JObj d) w =
      (StreamReply
          [JObj [(''type'', JStr ''token''),
                       (''content'', JStr (''Document saved from chat as '' @ paste_filename w @ '' with ''
                    @ str_nat (length chunks)
                    @ '' chunks. Now ask your question and I will use it in RAG mode.''))],
           JObj [(''type'', JStr ''done''), (''model'', JStr selected_model),
                       (''rag_enabled'', JBool True), (''rag_ingested'', JBool True),
                       (''web_enabled'', JBool web_enabled)]], ?w2)"
    using present assms(3) by (simp add: chat_stream_def stream_body_def stream)
  have "rag_chunks ?w3 = rag_chunks w @ rows" and "llm_calls ?w3 = llm_calls w"
    and "rag_chunks ?w2 = rag_chunks w @ rows" and "llm_calls ?w2 = llm_calls w"
    by (simp_all add: same)
  with chunks contents fields chat chat_stream show ?thesis
    by blast
qed


theorem auto_ingest_acknowledged_witness:
  "fst (chat default_config (example_env unreachable unreachable) (JObj paste_request)
         empty_world)
     = JsonReply 200 (JObj
         [(''success'', JBool True),
          (''message'', JStr (''Document saved from chat as chat-paste-1.txt with 1 chunks. ''
                             @ ''Now ask your question and I will use it in RAG mode.'')),
          (''model'', JStr ''llama3.2:1b''),
          (''rag_enabled'', JBool True),
          (''rag_ingested'', JBool True),
          (''rag_total_chunks'', JInt 1),
          (''web_enabled'', JBool False)])
   \<and> llm_calls (snd (chat default_config (example_env unreachable unreachable)
                       (JObj paste_request) empty_world)) = []
   \<and> map row_content (rag_chunks (snd (chat default_config
          (example_env unreachable unreachable) (JObj paste_request) empty_world)))
       = [twenty_lines]
   \<and> fst (chat_stream web_config (example_env unreachable unreachable)
            (JObj web_paste_request) empty_world)
     = StreamReply
         [JObj [(''type'', JStr ''token''),
                (''content'',
                 JStr (''Document saved from chat as chat-paste-1.txt with 1 chunks. ''
                       @ ''Now ask your question and I will use it in RAG mode.''))],
          JObj [(''type'', JStr ''done''), (''model'', JStr ''llama3.2:1b''),
                (''rag_enabled'', JBool True), (''rag_ingested'', JBool True),
                (''web_enabled'', JBool True)]]
   \<and> llm_calls (snd (chat_stream web_config (example_env unreachable unreachable)
                       (JObj web_paste_request) empty_world)) = []
   \<and> map row_content (rag_chunks (snd (chat_stream web_config
          (example_env unreachable unreachable) (JObj web_paste_request) empty_world)))
       = [twenty_lines]"
proof -
  let ?e = "example_env unreachable unreachable"
  have fresh: "fresh_ids ?e empty_world"
    by (simp add: fresh_ids_def example_env_def empty_world_def inj_on_def)
  have heuristic: "should_auto_ingest default_config (JStr twenty_lines)"
    "should_auto_ingest web_config (JStr twenty_lines)"
    by code_simp+
  have name: "paste_filename empty_world = ''chat-paste-1.txt''"
    by code_simp
  have "str_nat 1 = ''1''"
    by code_simp
  then have digit: "str_nat (Suc 0) = ''1''"
    by simp
  have "spec_windows twenty_lines 700 120 0 = [twenty_lines]"
    by code_simp
  then have parts: "chunk_text twenty_lines 700 120 = Some [twenty_lines]"
    using chunk_loop_windows [of 700 twenty_lines 120 0 "[]"]
    by (simp add: chunk_text_def twenty_lines_def)
  have sizes: "RAG_CHUNK_SIZE default_config = 700" "RAG_CHUNK_OVERLAP default_config = 120"
    "RAG_CHUNK_SIZE web_config = 700" "RAG_CHUNK_OVERLAP web_config = 120"
    by (simp_all add: default_config_def web_config_def)
  have plain: "map_of paste_request ''message'' = Some (JStr twenty_lines)"
    "truthy (dict_get paste_request ''rag_enabled'' (JBool False))"
    "\<not> truthy (dict_get paste_request ''web_enabled'' (JBool False))"
    "resolve_model default_config (dict_get paste_request ''model'' JNull) = ''llama3.2:1b''"
    "web_step default_config ?e (truthy (dict_get paste_request ''web_enabled'' (JBool False)))
       (JStr twenty_lines) empty_world = (Inr ([], None), empty_world)"
    by (simp_all add: paste_request_def dict_get_def resolve_model_def default_config_def
          web_step_def)
  have web: "map_of web_paste_request ''message'' = Some (JStr twenty_lines)"
    "truthy (dict_get web_paste_request ''rag_enabled'' (JBool False))"
    "truthy (dict_get web_paste_request ''web_enabled'' (JBool False))"
    "resolve_model web_config (dict_get web_paste_request ''model'' JNull) = ''llama3.2:1b''"
    "web_step web_config ?e (truthy (dict_get web_paste_request ''web_enabled'' (JBool False)))
       (JStr twenty_lines) empty_world
     = (Inr ([], Some ''lookup_failed''),
        empty_world\<lparr>web_calls := web_calls empty_world
           @ [google_params web_config (JStr twenty_lines) (WEB_LOOKUP_TOP_K web_config)]\<rparr>)"
    by (simp_all add: web_paste_request_def dict_get_def resolve_model_def default_config_def
          web_config_def web_step_def fetch_google_results_def web_lookup_configured_def
          google_lookup_def example_env_def unreachable_def Let_def)
  have rows0: "rag_chunks empty_world = []" "llm_calls empty_world = []"
    by (simp_all add: empty_world_def)
  from auto_ingest_acknowledged [OF plain(1) plain(2) heuristic(1) plain(5) _ fresh]
  obtain chunks rows w2 w3 where
    split: "chunk_text twenty_lines (RAG_CHUNK_SIZE default_config)
       (RAG_CHUNK_OVERLAP default_config) = Some chunks"
    and stored: "map row_content rows = chunks"
    and reply: "chat default_config ?e (JObj paste_request) empty_world =
      (JsonReply 200 (JObj
          [(''success'', JBool True),
           (''message'', JStr (''Document saved from chat as '' @ paste_filename empty_world @ '' with ''
                    @ str_nat (length chunks)
                    @ '' chunks. Now ask your question and I will use it in RAG mode.'')),
           (''model'', JStr (resolve_model default_config (dict_get paste_request ''model'' JNull))),
           (''rag_enabled'', JBool True),
           (''rag_ingested'', JBool True),
           (''rag_total_chunks'', JInt (int (length (rag_chunks empty_world) + length chunks))),
           (''web_enabled'', JBool (truthy (dict_get paste_request ''web_enabled'' (JBool False))))]),
       w3)"
    and table: "rag_chunks w3 = rag_chunks empty_world @ rows"
    and calls: "llm_calls w3 = llm_calls empty_world"
    using plain(3) by blast
  have one: "chunks = [twenty_lines]"
    using split parts by (simp add: sizes)
  have first: "fst (chat default_config ?e (JObj paste_request) empty_world)
     = JsonReply 200 (JObj
         [(''success'', JBool True),
          (''message'', JStr (''Document saved from chat as chat-paste-1.txt with 1 chunks. ''
                             @ ''Now ask your question and I will use it in RAG mode.'')),
          (''model'', JStr ''llama3.2:1b''),
          (''rag_enabled'', JBool True),
          (''rag_ingested'', JBool True),
          (''rag_total_chunks'', JInt 1),
          (''web_enabled'', JBool False)])
   \<and> llm_calls (snd (chat default_config ?e (JObj paste_request) empty_world)) = []
   \<and> map row_content (rag_chunks (snd (chat default_config ?e (JObj paste_request)
          empty_world))) = [twenty_lines]"
    using stored by (simp add: reply table calls one name digit plain(3,4) rows0)
  from auto_ingest_acknowledged [OF web(1) web(2) heuristic(2) web(5) _ fresh]
  obtain pieces added w2 w3 where
    split: "chunk_text twenty_lines (RAG_CHUNK_SIZE web_config) (RAG_CHUNK_OVERLAP web_config)
       = Some pieces"
    and stored: "map row_content added = pieces"
    and reply: "chat_stream web_config ?e (JObj web_paste_request) empty_world =
      (StreamReply
          [JObj [(''type'', JStr ''token''),
                 (''content'', JStr (''Document saved from chat as '' @ paste_filename empty_world @ '' with ''
                    @ str_nat (length pieces)
                    @ '' chunks. Now ask your question and I will use it in RAG mode.''))],
           JObj [(''type'', JStr ''done''),
                 (''model'', JStr (resolve_model web_config
                                     (dict_get web_paste_request ''model'' JNull))),
                 (''rag_enabled'', JBool True), (''rag_ingested'', JBool True),
                 (''web_enabled'',
                  JBool (truthy (dict_get web_paste_request ''web_enabled'' (JBool False))))]],
       w2)"
    and table: "rag_chunks w2 = rag_chunks empty_world @ added"
    and calls: "llm_calls w2 = llm_calls empty_world"
    by auto
  have one: "pieces = [twenty_lines]"
    using split parts by (simp add: sizes)
  have second: "fst (chat_stream web_config ?e (JObj web_paste_request) empty_world)
     = StreamReply
         [JObj [(''type'', JStr ''token''),
                (''content'',
                 JStr (''Document saved from chat as chat-paste-1.txt with 1 chunks. ''
                       @ ''Now ask your question and I will use it in RAG mode.''))],
          JObj [(''type'', JStr ''done''), (''model'', JStr ''llama3.2:1b''),
                (''rag_enabled'', JBool True), (''rag_ingested'', JBool True),
                (''web_enabled'', JBool True)]]
   \<and> llm_calls (snd (chat_stream web_config ?e (JObj web_paste_request) empty_world)) = []
   \<and> map row_content (rag_chunks (snd (chat_stream web_config ?e (JObj web_paste_request)
          empty_world))) = [twenty_lines]"
    using stored by (simp add: reply table calls one name digit web(3,4) rows0)
  from first second show ?thesis
    by blast
qed

text \<open>
  C6 as stated, for every request with RAG enabled and a message that satisfies the
  heuristic, fails: with web mode requested and no credentials, both handlers answer the
  configuration error with status 400 and the table stays empty.
\<close>

theorem auto_ingest_web_unconfigured_counterexample:
  "truthy (dict_get web_paste_request ''rag_enabled'' (JBool False))
   \<and> should_auto_ingest default_config (JStr twenty_lines)
   \<and> chat default_config (example_env unreachable unreachable) (JObj web_paste_request)
        empty_world
       = (JsonReply 400 (JObj [(''success'', JBool False),
            (''error'', JStr (''Web Mode is enabled but Google lookup is not configured. ''
                             @ ''Set GOOGLE_API_KEY and GOOGLE_CSE_ID.''))]), empty_world)
   \<and> chat_stream default_config (example_env unreachable unreachable) (JObj web_paste_request)
        empty_world
       = (JsonReply 400 (JObj [(''success'', JBool False),
            (''error'', JStr (''Web Mode is enabled but Google lookup is not configured. ''
                             @ ''Set GOOGLE_API_KEY and GOOGLE_CSE_ID.''))]), empty_world)
   \<and> rag_chunks empty_world = []"
proof -
  have "should_auto_ingest default_config (JStr twenty_lines)"
    by code_simp
  moreover have "chat default_config (example_env unreachable unreachable)
      (JObj web_paste_request) empty_world
      = (JsonReply 400 (JObj [(''success'', JBool False),
           (''error'', JStr (''Web Mode is enabled but Google lookup is not configured. ''
                            @ ''Set GOOGLE_API_KEY and GOOGLE_CSE_ID.''))]), empty_world)"
    by (simp add: not_configured_reply_def chat_def chat_body_def chat_steps_def web_paste_request_def dict_get_def
          web_step_def fetch_google_results_def web_lookup_configured_def default_config_def
          Let_def)
  moreover have "chat_stream default_config (example_env unreachable unreachable)
      (JObj web_paste_request) empty_world
      = (JsonReply 400 (JObj [(''success'', JBool False),
           (''error'', JStr (''Web Mode is enabled but Google lookup is not configured. ''
                            @ ''Set GOOGLE_API_KEY and GOOGLE_CSE_ID.''))]), empty_world)"
    by (simp add: not_configured_reply_def chat_stream_def stream_body_def stream_steps_def web_paste_request_def
          dict_get_def web_step_def fetch_google_results_def web_lookup_configured_def
          default_config_def Let_def)
  ultimately show ?thesis
    by (simp add: web_paste_request_def dict_get_def empty_world_def)
qed

end
